theory Spec2Isabelle
  imports Complex_Main
begin

section \<open>Values and exceptions\<close>

text \<open>
  The program is a Python script that computes with Python floats. The evaluator is
  embedded twice. \<open>analyze_order\<close> reads its arithmetic as exact arithmetic on real
  numbers: it states the algebra of the formulas, for finite numbers and without
  rounding. \<open>analyze_order_ieee\<close> follows the program on the floats themselves: IEEE
  doubles with inf and nan, every operation rounded to the nearest double, ties to even.
  The resolver and the entry point are embedded on floats. The numbers that the
  specification types as floats are floats in the model; a price input may also be a
  Python int, which \<open>float\<close> converts.
\<close>

datatype error =
    ValueError
  | ZeroDivisionError
  | OverflowError
  | NameError
  | OtherError  \<comment> \<open>any exception raised inside a library the script calls\<close>

definition bind_err :: "error + 'a \<Rightarrow> ('a \<Rightarrow> error + 'b) \<Rightarrow> error + 'b" where
  "bind_err m f = (case m of Inl e \<Rightarrow> Inl e | Inr x \<Rightarrow> f x)"

definition py_div :: "real \<Rightarrow> real \<Rightarrow> error + real" where
  \<comment> \<open>Python's true division \<open>a / b\<close> raises ZeroDivisionError when \<open>b == 0\<close>\<close>
  "py_div a b = (if b = 0 then Inl ZeroDivisionError else Inr (a / b))"

section \<open>Python floats\<close>

text \<open>
  A float is a finite double, an infinity or nan. \<open>Fin 0\<close> stands for both zeros: the
  program cannot tell them apart, since it never divides by a zero without raising and
  \<open>==\<close> holds between them. \<open>round_double\<close> rounds a real number to the nearest double,
  ties to the even mantissa, with subnormals below \<open>2^-1022\<close> and overflow to an infinity:
  the spacing of the doubles around \<open>x\<close> is \<open>2^(e - 52)\<close> for the binary exponent \<open>e\<close>
  of \<open>x\<close>, not below \<open>-1022\<close>.
\<close>

datatype double = Fin real | PInf | NInf | NaN

fun bit_length :: "nat \<Rightarrow> nat" where
  "bit_length n = (if n = 0 then 0 else Suc (bit_length (n div 2)))"

declare bit_length.simps [simp del]

definition binary_exponent :: "real \<Rightarrow> int" where
  \<comment> \<open>for \<open>0 < x\<close>, the integer \<open>e\<close> with \<open>2^e \<le> x < 2^(e + 1)\<close>\<close>
  "binary_exponent x =
     (if 1 \<le> x then int (bit_length (nat \<lfloor>x\<rfloor>)) - 1
      else (let k = bit_length (nat \<lfloor>1 / x\<rfloor>) - 1
            in if x * 2 ^ k = 1 then - int k else - int k - 1))"

definition pow2 :: "int \<Rightarrow> real" where
  "pow2 e = (if 0 \<le> e then 2 ^ nat e else 1 / 2 ^ nat (- e))"

definition round_half_even :: "real \<Rightarrow> int" where
  "round_half_even q =
     (let f = \<lfloor>q\<rfloor>; d = q - of_int f
      in if d < 1 / 2 then f
         else if 1 / 2 < d then f + 1
         else if even f then f else f + 1)"

definition round_double :: "real \<Rightarrow> double" where
  "round_double x =
     (if x = 0 then Fin 0
      else
        (let e = max (binary_exponent \<bar>x\<bar>) (- 1022);
             u = pow2 (e - 52);
             y = of_int (round_half_even (x / u)) * u
         in if 2 ^ 1024 \<le> \<bar>y\<bar> then (if 0 < x then PInf else NInf) else Fin y))"

fun dneg :: "double \<Rightarrow> double" where
  "dneg (Fin a) = Fin (- a)"
| "dneg PInf = NInf"
| "dneg NInf = PInf"
| "dneg NaN = NaN"

fun dabs :: "double \<Rightarrow> double" where
  \<comment> \<open>\<open>abs(x)\<close>\<close>
  "dabs (Fin a) = Fin \<bar>a\<bar>"
| "dabs PInf = PInf"
| "dabs NInf = PInf"
| "dabs NaN = NaN"

fun dadd :: "double \<Rightarrow> double \<Rightarrow> double" where
  \<comment> \<open>\<open>x + y\<close>\<close>
  "dadd (Fin a) (Fin b) = round_double (a + b)"
| "dadd NaN y = NaN"
| "dadd x NaN = NaN"
| "dadd PInf NInf = NaN"
| "dadd NInf PInf = NaN"
| "dadd PInf y = PInf"
| "dadd x PInf = PInf"
| "dadd NInf y = NInf"
| "dadd x NInf = NInf"

definition dsub :: "double \<Rightarrow> double \<Rightarrow> double" where
  \<comment> \<open>\<open>x - y\<close>\<close>
  "dsub x y = dadd x (dneg y)"

definition inf_of_sign :: "real \<Rightarrow> double" where
  \<comment> \<open>the product of an infinity and a finite factor, by the sign the product has\<close>
  "inf_of_sign s = (if s = 0 then NaN else if 0 < s then PInf else NInf)"

fun dmul :: "double \<Rightarrow> double \<Rightarrow> double" where
  \<comment> \<open>\<open>x * y\<close>\<close>
  "dmul (Fin a) (Fin b) = round_double (a * b)"
| "dmul NaN y = NaN"
| "dmul x NaN = NaN"
| "dmul (Fin a) PInf = inf_of_sign a"
| "dmul (Fin a) NInf = inf_of_sign (- a)"
| "dmul PInf (Fin b) = inf_of_sign b"
| "dmul NInf (Fin b) = inf_of_sign (- b)"
| "dmul PInf PInf = PInf"
| "dmul PInf NInf = NInf"
| "dmul NInf PInf = NInf"
| "dmul NInf NInf = PInf"

fun ddiv :: "double \<Rightarrow> double \<Rightarrow> double" where
  \<comment> \<open>the quotient \<open>x / y\<close> for a divisor that is not zero\<close>
  "ddiv (Fin a) (Fin b) = round_double (a / b)"
| "ddiv NaN y = NaN"
| "ddiv x NaN = NaN"
| "ddiv (Fin a) PInf = Fin 0"
| "ddiv (Fin a) NInf = Fin 0"
| "ddiv PInf (Fin b) = (if 0 < b then PInf else NInf)"
| "ddiv NInf (Fin b) = (if 0 < b then NInf else PInf)"
| "ddiv PInf PInf = NaN"
| "ddiv PInf NInf = NaN"
| "ddiv NInf PInf = NaN"
| "ddiv NInf NInf = NaN"

fun dle :: "double \<Rightarrow> double \<Rightarrow> bool" where
  \<comment> \<open>\<open>x <= y\<close>: false when either side is nan\<close>
  "dle (Fin a) (Fin b) = (a \<le> b)"
| "dle NaN y = False"
| "dle x NaN = False"
| "dle NInf y = True"
| "dle x PInf = True"
| "dle PInf y = False"
| "dle x NInf = False"

fun dlt :: "double \<Rightarrow> double \<Rightarrow> bool" where
  \<comment> \<open>\<open>x < y\<close>: false when either side is nan\<close>
  "dlt (Fin a) (Fin b) = (a < b)"
| "dlt NaN y = False"
| "dlt x NaN = False"
| "dlt PInf y = False"
| "dlt x NInf = False"
| "dlt NInf y = True"
| "dlt x PInf = True"

definition py_truediv :: "double \<Rightarrow> double \<Rightarrow> error + double" where
  \<comment> \<open>\<open>x / y\<close> on floats: ZeroDivisionError when \<open>y == 0\<close>, whatever \<open>x\<close> is\<close>
  "py_truediv x y = (if y = Fin 0 then Inl ZeroDivisionError else Inr (ddiv x y))"

section \<open>Strings\<close>

text \<open>
  A direction is compared with a literal only; it is the byte list of its UTF-8 encoding.
  A price input string is the list of its code points, because \<open>float\<close> reads the
  characters outside ASCII through the Unicode database.
\<close>

definition endswith :: "'a list \<Rightarrow> 'a list \<Rightarrow> bool" where
  \<comment> \<open>\<open>s.endswith(suffix)\<close>\<close>
  "endswith s suffix =
     (length suffix \<le> length s \<and> drop (length s - length suffix) s = suffix)"

definition strip_chars :: "'a list \<Rightarrow> 'a list \<Rightarrow> 'a list" where
  \<comment> \<open>\<open>s.strip(chars)\<close>: drops every leading and every trailing character that
      occurs in \<open>chars\<close>\<close>
  "strip_chars s chars =
     rev (dropWhile (\<lambda>c. c \<in> set chars) (rev (dropWhile (\<lambda>c. c \<in> set chars) s)))"

definition codes :: "string \<Rightarrow> nat list" where
  \<comment> \<open>the code points of an ASCII literal\<close>
  "codes s = map of_char s"

definition percent :: "nat list" where
  \<comment> \<open>the string \<open>"%"\<close>\<close>
  "percent = [37]"

subsection \<open>The builtin float on strings\<close>

text \<open>
  \<open>float(s)\<close> reads an ASCII string as it is. In a string with a character outside
  ASCII it first replaces every character from code point 127 on: a Unicode space by a
  space, a Unicode decimal digit by the ASCII digit of its value, and the first character
  that is neither by a question mark, where it cuts the string. Which characters are
  spaces and digits is a table of the interpreter's Unicode database; the model takes it
  as a parameter \<open>U\<close>.

  The resulting ASCII string is stripped of surrounding whitespace (space, tab, line
  feed, vertical tab, form feed, carriage return) and read as
  \<^verbatim>\<open>[sign] (floatnumber | "inf" | "infinity" | "nan")\<close> where
  \<^verbatim>\<open>floatnumber ::= ([digitpart] "." digitpart | digitpart ["."]) [("e"|"E") [sign] digitpart]\<close>
  and \<^verbatim>\<open>digitpart ::= digit (["_"] digit)*\<close>; the words are matched without regard to
  case. Anything else raises ValueError (\<open>None\<close> in the model). A number is rounded to the
  nearest double; one too large becomes an infinity and raises nothing.
\<close>

datatype uclass = USpace | UDecimal nat | UOther

fun to_ascii :: "(nat \<Rightarrow> uclass) \<Rightarrow> nat list \<Rightarrow> string" where
  "to_ascii U [] = []"
| "to_ascii U (c # cs) =
     (if c < 127 then char_of c # to_ascii U cs
      else
        (case U c of
           USpace \<Rightarrow> CHR '' '' # to_ascii U cs
         | UDecimal d \<Rightarrow> char_of (48 + d) # to_ascii U cs
         | UOther \<Rightarrow> ''?''))"

definition is_space :: "char \<Rightarrow> bool" where
  "is_space c \<longleftrightarrow>
     c \<in> set [CHR 0x09, CHR 0x0A, CHR 0x0B, CHR 0x0C, CHR 0x0D, CHR 0x20]"

definition is_digit :: "char \<Rightarrow> bool" where
  "is_digit c \<longleftrightarrow> c \<in> set ''0123456789''"

definition digit_val :: "char \<Rightarrow> nat" where
  "digit_val c = of_char c - 48"

definition in_run :: "char \<Rightarrow> bool" where
  "in_run c \<longleftrightarrow> is_digit c \<or> c = CHR ''_''"

fun no_double_underscore :: "string \<Rightarrow> bool" where
  "no_double_underscore (a # b # cs) =
     (\<not> (a = CHR ''_'' \<and> b = CHR ''_'') \<and> no_double_underscore (b # cs))"
| "no_double_underscore cs = True"

definition valid_digitpart :: "string \<Rightarrow> bool" where
  \<comment> \<open>a run of digits and underscores is a digitpart when every underscore stands between
      two digits\<close>
  "valid_digitpart r \<longleftrightarrow>
     r \<noteq> [] \<and> is_digit (hd r) \<and> is_digit (last r) \<and> no_double_underscore r"

definition digits_val :: "string \<Rightarrow> nat" where
  "digits_val r = foldl (\<lambda>a c. 10 * a + digit_val c) 0 (filter is_digit r)"

definition split_sign :: "string \<Rightarrow> bool \<times> string" where
  \<comment> \<open>an optional sign: whether it is a minus, and the rest\<close>
  "split_sign s =
     (case s of
        [] \<Rightarrow> (False, [])
      | c # t \<Rightarrow>
          if c = CHR ''-'' then (True, t)
          else if c = CHR ''+'' then (False, t)
          else (False, s))"

definition parse_exponent :: "string \<Rightarrow> int option" where
  "parse_exponent s =
     (case s of
        [] \<Rightarrow> Some 0
      | c # t \<Rightarrow>
          if c = CHR ''e'' \<or> c = CHR ''E'' then
            (let (neg, u) = split_sign t in
             if list_all in_run u \<and> valid_digitpart u
             then Some (if neg then - int (digits_val u) else int (digits_val u))
             else None)
          else None)"

definition scale10 :: "real \<Rightarrow> int \<Rightarrow> real" where
  "scale10 m e = (if 0 \<le> e then m * 10 ^ nat e else m / 10 ^ nat (- e))"

definition parse_number :: "string \<Rightarrow> real option" where
  "parse_number s =
     (let ip = takeWhile in_run s;
          s1 = dropWhile in_run s;
          (fp, s2) =
            (case s1 of
               [] \<Rightarrow> ([], [])
             | c # t \<Rightarrow>
                 if c = CHR ''.'' then (takeWhile in_run t, dropWhile in_run t)
                 else ([], s1))
      in if (ip = [] \<or> valid_digitpart ip) \<and> (fp = [] \<or> valid_digitpart fp)
            \<and> \<not> (ip = [] \<and> fp = [])
         then
           (case parse_exponent s2 of
              None \<Rightarrow> None
            | Some e \<Rightarrow>
                Some (scale10 (real (digits_val (ip @ fp)))
                        (e - int (length (filter is_digit fp)))))
         else None)"

definition lower :: "char \<Rightarrow> char" where
  "lower c =
     (case map_of (zip ''ABCDEFGHIJKLMNOPQRSTUVWXYZ'' ''abcdefghijklmnopqrstuvwxyz'') c of
        None \<Rightarrow> c
      | Some d \<Rightarrow> d)"

definition float_ascii :: "string \<Rightarrow> double option" where
  \<comment> \<open>the reading of the ASCII string\<close>
  "float_ascii s =
     (let t = rev (dropWhile is_space (rev (dropWhile is_space s)));
          (neg, body) = split_sign t
      in if map lower body \<in> set [''inf'', ''infinity''] then Some (if neg then NInf else PInf)
         else if map lower body = ''nan'' then Some NaN
         else
           (case parse_number body of
              None \<Rightarrow> None
            | Some r \<Rightarrow> Some (round_double (if neg then - r else r))))"

definition float_str :: "(nat \<Rightarrow> uclass) \<Rightarrow> nat list \<Rightarrow> double option" where
  "float_str U s =
     float_ascii (if list_all (\<lambda>c. c < 128) s then map char_of s else to_ascii U s)"

datatype pyval = Str "nat list" | IntNum int | FloatNum double

fun py_float :: "(nat \<Rightarrow> uclass) \<Rightarrow> pyval \<Rightarrow> error + double" where
  \<comment> \<open>\<open>float(value)\<close>: a float is returned as it is, an int is rounded to the nearest
      double and raises OverflowError when it is too large for one\<close>
  "py_float U (FloatNum v) = Inr v"
| "py_float U (IntNum n) =
     (case round_double (of_int n) of
        Fin y \<Rightarrow> Inr (Fin y)
      | _ \<Rightarrow> Inl OverflowError)"
| "py_float U (Str s) =
     (case float_str U s of
        None \<Rightarrow> Inl ValueError
      | Some v \<Rightarrow> Inr v)"

section \<open>The offset resolver\<close>

fun calc_price_from_input :: "(nat \<Rightarrow> uclass) \<Rightarrow> double \<Rightarrow> pyval \<Rightarrow> error + double" where
  "calc_price_from_input U current_price (Str s) =
     (if endswith s percent then
        bind_err (py_float U (Str (strip_chars s percent)))
          (\<lambda>pct. Inr (dmul current_price (dadd (Fin 1) (ddiv pct (Fin 100)))))
      else py_float U (Str s))"
| "calc_price_from_input U current_price (IntNum n) = py_float U (IntNum n)"
| "calc_price_from_input U current_price (FloatNum v) = py_float U (FloatNum v)"

section \<open>The order evaluator\<close>

text \<open>
  An order is the dictionary that \<open>analyze_trading_orders\<close> builds, with the keys
  \<open>direction\<close>, \<open>win_rate\<close>, \<open>current_price\<close> (the entry price), \<open>take_profit\<close> and
  \<open>stop_loss\<close>. The direction is a free string; the program compares it with the
  one-character label for a long position, U+591A. The type of the numbers is a
  parameter, \<open>real\<close> for the exact reading and \<open>double\<close> for the floats.
\<close>

record 'a order =
  direction :: string
  win_rate :: 'a
  current_price :: 'a
  take_profit :: 'a
  stop_loss :: 'a

definition long_label :: string where
  \<comment> \<open>U+591A in UTF-8\<close>
  "long_label = [CHR 0xE5, CHR 0xA4, CHR 0x9A]"

definition short_label :: string where
  \<comment> \<open>U+7A7A in UTF-8, the label the script's example uses for a short position\<close>
  "short_label = [CHR 0xE7, CHR 0xA9, CHR 0xBA]"

text \<open>
  The result is the dictionary the evaluator returns. Its keys are Chinese words; the
  fields below carry the names the specification gives them (with the prefix \<open>res_\<close>), in
  the order of the dictionary literal:
  \<open>res_direction\<close> (U+65B9 U+5411), \<open>res_entry_price\<close> (U+5F00 U+4ED3 U+4EF7),
  \<open>res_take_profit\<close> (U+6B62 U+76C8 U+4EF7), \<open>res_stop_loss\<close> (U+6B62 U+635F U+4EF7),
  \<open>res_profit_loss_ratio\<close> (U+76C8 U+4E8F U+6BD4),
  \<open>res_potential_profit\<close> (U+6F5C U+5728 U+76C8 U+5229),
  \<open>res_potential_loss\<close> (U+6F5C U+5728 U+4E8F U+635F),
  \<open>res_take_profit_pct\<close> (U+6B62 U+76C8 U+5E45 U+5EA6 %),
  \<open>res_stop_loss_pct\<close> (U+6B62 U+635F U+5E45 U+5EA6 %), \<open>res_capital\<close> (U+4FDD U+8BC1 U+91D1),
  \<open>res_position_value\<close> (U+6301 U+4ED3 U+89C4 U+6A21), \<open>res_leverage\<close> (U+6760 U+6746),
  \<open>res_win_rate\<close> (U+80DC U+7387), \<open>res_expected_value\<close> (U+671F U+671B U+6536 U+76CA).
  The program computes \<open>margin = capital / leverage\<close> and never uses it: what the result
  carries under the key for the margin (\<open>res_capital\<close>) is the capital itself.
\<close>

record 'a result =
  res_direction :: string
  res_entry_price :: 'a
  res_take_profit :: 'a
  res_stop_loss :: 'a
  res_profit_loss_ratio :: 'a
  res_potential_profit :: 'a
  res_potential_loss :: 'a
  res_take_profit_pct :: 'a
  res_stop_loss_pct :: 'a
  res_capital :: 'a
  res_position_value :: 'a
  res_leverage :: 'a
  res_win_rate :: 'a
  res_expected_value :: 'a

text \<open>
  \<open>analyze_order\<close> returns \<open>Inl e\<close> where the Python raises, \<open>Inr None\<close> where it returns
  \<open>None\<close> and \<open>Inr (Some r)\<close> where it returns the dictionary. The two branches of the
  direction test hand on the four numbers they compute (potential profit, potential
  loss, profit percentage, loss percentage).
\<close>

definition analyze_order ::
  "real order \<Rightarrow> real \<Rightarrow> real \<Rightarrow> error + real result option" where
  "analyze_order order capital leverage =
     bind_err (py_div capital leverage) (\<lambda>margin.
     let position_value = capital * leverage in
     bind_err (py_div position_value (current_price order)) (\<lambda>position_size.
     bind_err
       (if direction order = long_label then
          if stop_loss order \<ge> current_price order \<or> take_profit order \<le> current_price order
          then Inr None
          else
            bind_err (py_div (take_profit order - current_price order) (current_price order)) (\<lambda>q1.
            bind_err (py_div (stop_loss order - current_price order) (current_price order)) (\<lambda>q2.
            Inr (Some ((take_profit order - current_price order) * position_size,
                       (current_price order - stop_loss order) * position_size,
                       q1 * 100,
                       q2 * 100))))
        else
          if stop_loss order \<le> current_price order \<or> take_profit order \<ge> current_price order
          then Inr None
          else
            bind_err (py_div (current_price order - take_profit order) (current_price order)) (\<lambda>q1.
            bind_err (py_div (stop_loss order - current_price order) (current_price order)) (\<lambda>q2.
            Inr (Some ((current_price order - take_profit order) * position_size,
                       (stop_loss order - current_price order) * position_size,
                       q1 * 100,
                       q2 * 100)))))
       (\<lambda>branch.
          case branch of
            None \<Rightarrow> Inr None
          | Some (potential_profit, potential_loss, pct_profit, pct_loss) \<Rightarrow>
              if potential_loss = 0 then Inr None
              else
                bind_err (py_div potential_profit potential_loss) (\<lambda>q.
                let profit_loss_ratio = \<bar>q\<bar>;
                    expected_val = win_rate order * potential_profit
                                   - (1 - win_rate order) * potential_loss
                in Inr (Some \<lparr>res_direction = direction order,
                              res_entry_price = current_price order,
                              res_take_profit = take_profit order,
                              res_stop_loss = stop_loss order,
                              res_profit_loss_ratio = profit_loss_ratio,
                              res_potential_profit = potential_profit,
                              res_potential_loss = potential_loss,
                              res_take_profit_pct = pct_profit,
                              res_stop_loss_pct = pct_loss,
                              res_capital = capital,
                              res_position_value = position_value,
                              res_leverage = leverage,
                              res_win_rate = win_rate order,
                              res_expected_value = expected_val\<rparr>)))))"

text \<open>
  The same function on floats. Of its divisions only the first two can raise: the later
  divisors are the entry price and the potential loss, both tested before.
\<close>

definition analyze_order_ieee ::
  "double order \<Rightarrow> double \<Rightarrow> double \<Rightarrow> error + double result option" where
  "analyze_order_ieee order capital leverage =
     bind_err (py_truediv capital leverage) (\<lambda>margin.
     let position_value = dmul capital leverage in
     bind_err (py_truediv position_value (current_price order)) (\<lambda>position_size.
     bind_err
       (if direction order = long_label then
          if dle (current_price order) (stop_loss order)
             \<or> dle (take_profit order) (current_price order)
          then Inr None
          else
            bind_err (py_truediv (dsub (take_profit order) (current_price order))
                        (current_price order)) (\<lambda>q1.
            bind_err (py_truediv (dsub (stop_loss order) (current_price order))
                        (current_price order)) (\<lambda>q2.
            Inr (Some (dmul (dsub (take_profit order) (current_price order)) position_size,
                       dmul (dsub (current_price order) (stop_loss order)) position_size,
                       dmul q1 (Fin 100),
                       dmul q2 (Fin 100)))))
        else
          if dle (stop_loss order) (current_price order)
             \<or> dle (current_price order) (take_profit order)
          then Inr None
          else
            bind_err (py_truediv (dsub (current_price order) (take_profit order))
                        (current_price order)) (\<lambda>q1.
            bind_err (py_truediv (dsub (stop_loss order) (current_price order))
                        (current_price order)) (\<lambda>q2.
            Inr (Some (dmul (dsub (current_price order) (take_profit order)) position_size,
                       dmul (dsub (stop_loss order) (current_price order)) position_size,
                       dmul q1 (Fin 100),
                       dmul q2 (Fin 100))))))
       (\<lambda>branch.
          case branch of
            None \<Rightarrow> Inr None
          | Some (potential_profit, potential_loss, pct_profit, pct_loss) \<Rightarrow>
              if potential_loss = Fin 0 then Inr None
              else
                bind_err (py_truediv potential_profit potential_loss) (\<lambda>q.
                let profit_loss_ratio = dabs q;
                    expected_val = dsub (dmul (win_rate order) potential_profit)
                                     (dmul (dsub (Fin 1) (win_rate order)) potential_loss)
                in Inr (Some \<lparr>res_direction = direction order,
                              res_entry_price = current_price order,
                              res_take_profit = take_profit order,
                              res_stop_loss = stop_loss order,
                              res_profit_loss_ratio = profit_loss_ratio,
                              res_potential_profit = potential_profit,
                              res_potential_loss = potential_loss,
                              res_take_profit_pct = pct_profit,
                              res_stop_loss_pct = pct_loss,
                              res_capital = capital,
                              res_position_value = position_value,
                              res_leverage = leverage,
                              res_win_rate = win_rate order,
                              res_expected_value = expected_val\<rparr>)))))"

section \<open>The entry point\<close>

text \<open>
  An input order is the five-element list
  \<open>[direction, win_rate, current_price, take_profit, stop_loss]\<close>, the last two being a
  number or a string. \<open>analyze_trading_orders\<close> runs two loops: the first resolves the two
  price inputs of every order (take-profit first), the second evaluates every order and
  keeps the results that are not \<open>None\<close> (a result dictionary is never empty, so it is
  always kept). An exception in either loop leaves the function.

  When there are results the function builds the table, prints, calls \<open>display\<close> on the
  table, calls \<open>plot_heatmap\<close> on it and returns the table, which holds the results in
  the order of the list. \<open>display\<close> is not defined or imported by the script: it is a
  builtin of IPython, and in a plain interpreter the call raises NameError. The plot is
  drawn by a library. What the two calls do is the parameter \<open>display_and_plot\<close>: for
  the list of results, \<open>None\<close> when both return and the exception when one raises;
  \<open>no_display\<close> is the plain interpreter.
\<close>

type_synonym order_input = "string \<times> double \<times> double \<times> pyval \<times> pyval"

fun build_orders :: "(nat \<Rightarrow> uclass) \<Rightarrow> order_input list \<Rightarrow> error + double order list" where
  "build_orders U [] = Inr []"
| "build_orders U ((d, w, p, tp, sl) # os) =
     bind_err (calc_price_from_input U p tp) (\<lambda>t.
     bind_err (calc_price_from_input U p sl) (\<lambda>s.
     bind_err (build_orders U os) (\<lambda>orders.
     Inr (\<lparr>direction = d, win_rate = w, current_price = p,
            take_profit = t, stop_loss = s\<rparr> # orders))))"

fun analyze_all ::
  "double order list \<Rightarrow> double \<Rightarrow> double \<Rightarrow> error + double result list" where
  "analyze_all [] capital leverage = Inr []"
| "analyze_all (order # orders) capital leverage =
     bind_err (analyze_order_ieee order capital leverage) (\<lambda>res.
     bind_err (analyze_all orders capital leverage) (\<lambda>results.
     Inr (case res of None \<Rightarrow> results | Some r \<Rightarrow> r # results)))"

definition no_display :: "double result list \<Rightarrow> error option" where
  \<comment> \<open>the name \<open>display\<close> is not bound\<close>
  "no_display results = Some NameError"

definition analyze_trading_orders ::
  "(nat \<Rightarrow> uclass) \<Rightarrow> (double result list \<Rightarrow> error option) \<Rightarrow> double \<Rightarrow> double
     \<Rightarrow> order_input list \<Rightarrow> error + double result list option" where
  "analyze_trading_orders U display_and_plot capital leverage orders_input =
     bind_err (build_orders U orders_input) (\<lambda>orders.
     bind_err (analyze_all orders capital leverage) (\<lambda>results.
     if results \<noteq> [] then
       (case display_and_plot results of
          Some e \<Rightarrow> Inl e
        | None \<Rightarrow> Inr (Some results))
     else Inr None))"

section \<open>Notions of the specification\<close>

text \<open>
  The definitions of this section are not code of the program: they name the conditions
  and quantities the specification speaks of, so that the theorems can state them.
\<close>

definition ordering_invariant :: "real order \<Rightarrow> bool" where
  \<comment> \<open>the directional ordering of the three prices; every direction but the long label
      is read as short, as the evaluator's \<open>else\<close> branch does\<close>
  "ordering_invariant order \<longleftrightarrow>
     (if direction order = long_label
      then stop_loss order < current_price order \<and> current_price order < take_profit order
      else take_profit order < current_price order \<and> current_price order < stop_loss order)"

definition potential_loss_of :: "real order \<Rightarrow> real \<Rightarrow> real \<Rightarrow> real" where
  \<comment> \<open>the value the evaluator assigns to \<open>potential_loss\<close> in the branch of the order's
      direction\<close>
  "potential_loss_of order capital leverage =
     (if direction order = long_label
      then (current_price order - stop_loss order) * (capital * leverage / current_price order)
      else (stop_loss order - current_price order) * (capital * leverage / current_price order))"

definition ordering_invariant_ieee :: "double order \<Rightarrow> bool" where
  \<comment> \<open>the ordering of the three prices as floats\<close>
  "ordering_invariant_ieee order \<longleftrightarrow>
     (if direction order = long_label
      then dlt (stop_loss order) (current_price order)
           \<and> dlt (current_price order) (take_profit order)
      else dlt (take_profit order) (current_price order)
           \<and> dlt (current_price order) (stop_loss order))"

definition result_invariant_ieee :: "double result \<Rightarrow> bool" where
  \<comment> \<open>the same ordering, read from the fields of an emitted result\<close>
  "result_invariant_ieee r \<longleftrightarrow>
     (if res_direction r = long_label
      then dlt (res_stop_loss r) (res_entry_price r)
           \<and> dlt (res_entry_price r) (res_take_profit r)
      else dlt (res_take_profit r) (res_entry_price r)
           \<and> dlt (res_entry_price r) (res_stop_loss r))"

definition loss_distance :: "double order \<Rightarrow> double" where
  \<comment> \<open>the difference between entry price and stop-loss that the branch of the order's
      direction computes\<close>
  "loss_distance order =
     (if direction order = long_label
      then dsub (current_price order) (stop_loss order)
      else dsub (stop_loss order) (current_price order))"

definition potential_loss_ieee :: "double order \<Rightarrow> double \<Rightarrow> double \<Rightarrow> double" where
  \<comment> \<open>the float the evaluator assigns to \<open>potential_loss\<close> in the branch of the order's
      direction\<close>
  "potential_loss_ieee order capital leverage =
     dmul (loss_distance order) (ddiv (dmul capital leverage) (current_price order))"

definition no_nan_price :: "double order \<Rightarrow> bool" where
  "no_nan_price order \<longleftrightarrow>
     current_price order \<noteq> NaN \<and> take_profit order \<noteq> NaN \<and> stop_loss order \<noteq> NaN"

definition valid_results :: "double order list \<Rightarrow> double \<Rightarrow> double \<Rightarrow> double result list" where
  \<comment> \<open>the results of the orders that the evaluator accepts, in the order of the list\<close>
  "valid_results orders capital leverage =
     concat (map (\<lambda>order. case analyze_order_ieee order capital leverage of
                             Inr (Some r) \<Rightarrow> [r]
                           | _ \<Rightarrow> []) orders)"

definition has_spec :: "order_input \<Rightarrow> nat list \<Rightarrow> bool" where
  \<comment> \<open>the string is the take-profit or the stop-loss input of the order\<close>
  "has_spec oi s = (case oi of (d, w, p, tp, sl) \<Rightarrow> tp = Str s \<or> sl = Str s)"

definition fits_float :: "pyval \<Rightarrow> bool" where
  \<comment> \<open>the price input is not an int too large for a float\<close>
  "fits_float v =
     (case v of
        IntNum n \<Rightarrow> (case round_double (of_int n) of Fin y \<Rightarrow> True | _ \<Rightarrow> False)
      | _ \<Rightarrow> True)"

definition ints_fit :: "order_input \<Rightarrow> bool" where
  "ints_fit oi = (case oi of (d, w, p, tp, sl) \<Rightarrow> fits_float tp \<and> fits_float sl)"

definition float_char :: "char \<Rightarrow> bool" where
  \<comment> \<open>the characters that can occur in an ASCII string that \<open>float\<close> accepts\<close>
  "float_char c \<longleftrightarrow>
     is_space c \<or> in_run c \<or> c \<in> set ''+-.eE'' \<or> lower c \<in> set ''infatyn''"

section \<open>What the evaluator returns, case by case\<close>

text \<open>
  The evaluator raises when the leverage or the entry price is zero (the two divisions
  that come first), returns \<open>None\<close> when the prices are out of order or the potential
  loss is zero, and otherwise returns the dictionary of the branch. The divisions that
  follow the first two never raise: their divisors are the entry price and the potential
  loss, both known not to be zero where they are reached.
\<close>

lemma analyze_order_cases:
  "analyze_order order capital leverage =
     (if leverage = 0 \<or> current_price order = 0 then Inl ZeroDivisionError
      else if direction order = long_label then
        (if stop_loss order \<ge> current_price order \<or> take_profit order \<le> current_price order
            \<or> (current_price order - stop_loss order) * (capital * leverage / current_price order) = 0
         then Inr None
         else Inr (Some \<lparr>res_direction = direction order,
                res_entry_price = current_price order,
                res_take_profit = take_profit order,
                res_stop_loss = stop_loss order,
                res_profit_loss_ratio =
                  \<bar>(take_profit order - current_price order) * (capital * leverage / current_price order)
                    / ((current_price order - stop_loss order) * (capital * leverage / current_price order))\<bar>,
                res_potential_profit =
                  (take_profit order - current_price order) * (capital * leverage / current_price order),
                res_potential_loss =
                  (current_price order - stop_loss order) * (capital * leverage / current_price order),
                res_take_profit_pct = (take_profit order - current_price order) / current_price order * 100,
                res_stop_loss_pct = (stop_loss order - current_price order) / current_price order * 100,
                res_capital = capital,
                res_position_value = capital * leverage,
                res_leverage = leverage,
                res_win_rate = win_rate order,
                res_expected_value =
                  win_rate order * ((take_profit order - current_price order) * (capital * leverage / current_price order))
                  - (1 - win_rate order) * ((current_price order - stop_loss order) * (capital * leverage / current_price order))\<rparr>))
      else
        (if stop_loss order \<le> current_price order \<or> take_profit order \<ge> current_price order
            \<or> (stop_loss order - current_price order) * (capital * leverage / current_price order) = 0
         then Inr None
         else Inr (Some \<lparr>res_direction = direction order,
                res_entry_price = current_price order,
                res_take_profit = take_profit order,
                res_stop_loss = stop_loss order,
                res_profit_loss_ratio =
                  \<bar>(current_price order - take_profit order) * (capital * leverage / current_price order)
                    / ((stop_loss order - current_price order) * (capital * leverage / current_price order))\<bar>,
                res_potential_profit =
                  (current_price order - take_profit order) * (capital * leverage / current_price order),
                res_potential_loss =
                  (stop_loss order - current_price order) * (capital * leverage / current_price order),
                res_take_profit_pct = (current_price order - take_profit order) / current_price order * 100,
                res_stop_loss_pct = (stop_loss order - current_price order) / current_price order * 100,
                res_capital = capital,
                res_position_value = capital * leverage,
                res_leverage = leverage,
                res_win_rate = win_rate order,
                res_expected_value =
                  win_rate order * ((current_price order - take_profit order) * (capital * leverage / current_price order))
                  - (1 - win_rate order) * ((stop_loss order - current_price order) * (capital * leverage / current_price order))\<rparr>)))"
  by (simp add: analyze_order_def py_div_def bind_err_def Let_def)

lemma long_accepted:
  assumes "analyze_order order capital leverage = Inr (Some r)"
    and "direction order = long_label"
  shows "r = \<lparr>res_direction = direction order,
                res_entry_price = current_price order,
                res_take_profit = take_profit order,
                res_stop_loss = stop_loss order,
                res_profit_loss_ratio =
                  \<bar>(take_profit order - current_price order) * (capital * leverage / current_price order)
                    / ((current_price order - stop_loss order) * (capital * leverage / current_price order))\<bar>,
                res_potential_profit =
                  (take_profit order - current_price order) * (capital * leverage / current_price order),
                res_potential_loss =
                  (current_price order - stop_loss order) * (capital * leverage / current_price order),
                res_take_profit_pct = (take_profit order - current_price order) / current_price order * 100,
                res_stop_loss_pct = (stop_loss order - current_price order) / current_price order * 100,
                res_capital = capital,
                res_position_value = capital * leverage,
                res_leverage = leverage,
                res_win_rate = win_rate order,
                res_expected_value =
                  win_rate order * ((take_profit order - current_price order) * (capital * leverage / current_price order))
                  - (1 - win_rate order) * ((current_price order - stop_loss order) * (capital * leverage / current_price order))\<rparr>"
  using assms unfolding analyze_order_cases
  by (auto simp only: sum.inject option.inject sum.distinct option.distinct split: if_split_asm)

lemma short_accepted:
  assumes "analyze_order order capital leverage = Inr (Some r)"
    and "direction order \<noteq> long_label"
  shows "r = \<lparr>res_direction = direction order,
                res_entry_price = current_price order,
                res_take_profit = take_profit order,
                res_stop_loss = stop_loss order,
                res_profit_loss_ratio =
                  \<bar>(current_price order - take_profit order) * (capital * leverage / current_price order)
                    / ((stop_loss order - current_price order) * (capital * leverage / current_price order))\<bar>,
                res_potential_profit =
                  (current_price order - take_profit order) * (capital * leverage / current_price order),
                res_potential_loss =
                  (stop_loss order - current_price order) * (capital * leverage / current_price order),
                res_take_profit_pct = (current_price order - take_profit order) / current_price order * 100,
                res_stop_loss_pct = (stop_loss order - current_price order) / current_price order * 100,
                res_capital = capital,
                res_position_value = capital * leverage,
                res_leverage = leverage,
                res_win_rate = win_rate order,
                res_expected_value =
                  win_rate order * ((current_price order - take_profit order) * (capital * leverage / current_price order))
                  - (1 - win_rate order) * ((stop_loss order - current_price order) * (capital * leverage / current_price order))\<rparr>"
  using assms unfolding analyze_order_cases
  by (auto simp only: sum.inject option.inject sum.distinct option.distinct split: if_split_asm)

lemma accepted_conditions:
  assumes "analyze_order order capital leverage = Inr (Some r)"
  shows "leverage \<noteq> 0" and "current_price order \<noteq> 0" and "ordering_invariant order"
    and "potential_loss_of order capital leverage \<noteq> 0"
  using assms unfolding analyze_order_cases ordering_invariant_def potential_loss_of_def
  by (simp_all split: if_splits)

lemma short_not_long: "short_label \<noteq> long_label"
  by (simp add: short_label_def long_label_def)

section \<open>What the evaluator returns on floats, case by case\<close>

text \<open>
  The same case analysis for \<open>analyze_order_ieee\<close>. A comparison with nan is false, so
  an order with a nan price passes both guards; the test \<open>potential_loss == 0\<close> is false
  for nan as well.
\<close>

lemma analyze_order_ieee_cases:
  "analyze_order_ieee order capital leverage =
     (if leverage = Fin 0 \<or> current_price order = Fin 0 then Inl ZeroDivisionError
      else if direction order = long_label then
        (if dle (current_price order) (stop_loss order)
            \<or> dle (take_profit order) (current_price order)
            \<or> dmul (dsub (current_price order) (stop_loss order))
                 (ddiv (dmul capital leverage) (current_price order)) = Fin 0
         then Inr None
         else Inr (Some \<lparr>res_direction = direction order,
                res_entry_price = current_price order,
                res_take_profit = take_profit order,
                res_stop_loss = stop_loss order,
                res_profit_loss_ratio =
                  dabs (ddiv (dmul (dsub (take_profit order) (current_price order))
                                (ddiv (dmul capital leverage) (current_price order)))
                          (dmul (dsub (current_price order) (stop_loss order))
                                (ddiv (dmul capital leverage) (current_price order)))),
                res_potential_profit =
                  dmul (dsub (take_profit order) (current_price order))
                    (ddiv (dmul capital leverage) (current_price order)),
                res_potential_loss =
                  dmul (dsub (current_price order) (stop_loss order))
                    (ddiv (dmul capital leverage) (current_price order)),
                res_take_profit_pct =
                  dmul (ddiv (dsub (take_profit order) (current_price order))
                          (current_price order)) (Fin 100),
                res_stop_loss_pct =
                  dmul (ddiv (dsub (stop_loss order) (current_price order))
                          (current_price order)) (Fin 100),
                res_capital = capital,
                res_position_value = dmul capital leverage,
                res_leverage = leverage,
                res_win_rate = win_rate order,
                res_expected_value =
                  dsub (dmul (win_rate order)
                         (dmul (dsub (take_profit order) (current_price order))
                            (ddiv (dmul capital leverage) (current_price order))))
                    (dmul (dsub (Fin 1) (win_rate order))
                         (dmul (dsub (current_price order) (stop_loss order))
                            (ddiv (dmul capital leverage) (current_price order))))\<rparr>))
      else
        (if dle (stop_loss order) (current_price order)
            \<or> dle (current_price order) (take_profit order)
            \<or> dmul (dsub (stop_loss order) (current_price order))
                 (ddiv (dmul capital leverage) (current_price order)) = Fin 0
         then Inr None
         else Inr (Some \<lparr>res_direction = direction order,
                res_entry_price = current_price order,
                res_take_profit = take_profit order,
                res_stop_loss = stop_loss order,
                res_profit_loss_ratio =
                  dabs (ddiv (dmul (dsub (current_price order) (take_profit order))
                                (ddiv (dmul capital leverage) (current_price order)))
                          (dmul (dsub (stop_loss order) (current_price order))
                                (ddiv (dmul capital leverage) (current_price order)))),
                res_potential_profit =
                  dmul (dsub (current_price order) (take_profit order))
                    (ddiv (dmul capital leverage) (current_price order)),
                res_potential_loss =
                  dmul (dsub (stop_loss order) (current_price order))
                    (ddiv (dmul capital leverage) (current_price order)),
                res_take_profit_pct =
                  dmul (ddiv (dsub (current_price order) (take_profit order))
                          (current_price order)) (Fin 100),
                res_stop_loss_pct =
                  dmul (ddiv (dsub (stop_loss order) (current_price order))
                          (current_price order)) (Fin 100),
                res_capital = capital,
                res_position_value = dmul capital leverage,
                res_leverage = leverage,
                res_win_rate = win_rate order,
                res_expected_value =
                  dsub (dmul (win_rate order)
                         (dmul (dsub (current_price order) (take_profit order))
                            (ddiv (dmul capital leverage) (current_price order))))
                    (dmul (dsub (Fin 1) (win_rate order))
                         (dmul (dsub (stop_loss order) (current_price order))
                            (ddiv (dmul capital leverage) (current_price order))))\<rparr>)))"
  by (simp add: analyze_order_ieee_def py_truediv_def bind_err_def Let_def)

lemma long_accepted_ieee:
  assumes "analyze_order_ieee order capital leverage = Inr (Some r)"
    and "direction order = long_label"
  shows "r = \<lparr>res_direction = direction order,
                res_entry_price = current_price order,
                res_take_profit = take_profit order,
                res_stop_loss = stop_loss order,
                res_profit_loss_ratio =
                  dabs (ddiv (dmul (dsub (take_profit order) (current_price order))
                                (ddiv (dmul capital leverage) (current_price order)))
                          (dmul (dsub (current_price order) (stop_loss order))
                                (ddiv (dmul capital leverage) (current_price order)))),
                res_potential_profit =
                  dmul (dsub (take_profit order) (current_price order))
                    (ddiv (dmul capital leverage) (current_price order)),
                res_potential_loss =
                  dmul (dsub (current_price order) (stop_loss order))
                    (ddiv (dmul capital leverage) (current_price order)),
                res_take_profit_pct =
                  dmul (ddiv (dsub (take_profit order) (current_price order))
                          (current_price order)) (Fin 100),
                res_stop_loss_pct =
                  dmul (ddiv (dsub (stop_loss order) (current_price order))
                          (current_price order)) (Fin 100),
                res_capital = capital,
                res_position_value = dmul capital leverage,
                res_leverage = leverage,
                res_win_rate = win_rate order,
                res_expected_value =
                  dsub (dmul (win_rate order)
                         (dmul (dsub (take_profit order) (current_price order))
                            (ddiv (dmul capital leverage) (current_price order))))
                    (dmul (dsub (Fin 1) (win_rate order))
                         (dmul (dsub (current_price order) (stop_loss order))
                            (ddiv (dmul capital leverage) (current_price order))))\<rparr>"
  using assms unfolding analyze_order_ieee_cases
  by (auto simp only: sum.inject option.inject sum.distinct option.distinct split: if_split_asm)

lemma accepted_ieee_conditions:
  assumes "analyze_order_ieee order capital leverage = Inr (Some r)"
  shows "leverage \<noteq> Fin 0" and "current_price order \<noteq> Fin 0"
    and "potential_loss_ieee order capital leverage \<noteq> Fin 0"
    and "direction order = long_label \<Longrightarrow>
           \<not> dle (current_price order) (stop_loss order)
           \<and> \<not> dle (take_profit order) (current_price order)"
    and "direction order \<noteq> long_label \<Longrightarrow>
           \<not> dle (stop_loss order) (current_price order)
           \<and> \<not> dle (current_price order) (take_profit order)"
  using assms unfolding analyze_order_ieee_cases potential_loss_ieee_def loss_distance_def
  by (simp_all split: if_splits)

lemma accepted_ieee_echo:
  assumes "analyze_order_ieee order capital leverage = Inr (Some r)"
  shows "res_direction r = direction order" and "res_entry_price r = current_price order"
    and "res_take_profit r = take_profit order" and "res_stop_loss r = stop_loss order"
    and "res_win_rate r = win_rate order"
  using assms unfolding analyze_order_ieee_cases
  by (auto split: if_splits)

lemma dlt_iff_not_dle:
  "x \<noteq> NaN \<Longrightarrow> y \<noteq> NaN \<Longrightarrow> dlt x y \<longleftrightarrow> \<not> dle y x"
  by (cases x; cases y) auto

lemma guards_iff_invariant:
  assumes "no_nan_price order"
  shows "ordering_invariant_ieee order \<longleftrightarrow>
     (if direction order = long_label
      then \<not> dle (current_price order) (stop_loss order)
           \<and> \<not> dle (take_profit order) (current_price order)
      else \<not> dle (stop_loss order) (current_price order)
           \<and> \<not> dle (current_price order) (take_profit order))"
  using assms unfolding ordering_invariant_ieee_def no_nan_price_def
  by (auto simp add: dlt_iff_not_dle)

lemma round_double_zero: "round_double 0 = Fin 0"
  by (simp add: round_double_def)

section \<open>Evaluating floats\<close>

text \<open>
  The order quoted by the specification, evaluated operation by operation. Each line of
  \<open>quoted_steps\<close> is one rounded operation of the program on the doubles of the line
  before; the numerators over powers of two are the exact values of the doubles.
\<close>

lemmas double_eval = round_double_def binary_exponent_def bit_length.simps pow2_def
  round_half_even_def Let_def dsub_def

lemma quoted_literals:
  "round_double 4552.6 = Fin (2502818318306509 / 2 ^ 39)"
  "round_double 4034.454 = Fin (8871858169454789 / 2 ^ 41)"
  "round_double 0.6 = Fin (5404319552844595 / 2 ^ 53)"
  by (simp_all add: double_eval)

lemma quoted_steps:
  "dmul (Fin 100) (Fin 20) = Fin 2000"
  "ddiv (Fin 2000) (Fin 4420) = Fin (8151311542752029 / 2 ^ 54)"
  "dsub (Fin (2502818318306509 / 2 ^ 39)) (Fin 4420) = Fin (72897620921549 / 2 ^ 39)"
  "dsub (Fin 4420) (Fin (8871858169454789 / 2 ^ 41)) = Fin (847824620085051 / 2 ^ 41)"
  "dsub (Fin (8871858169454789 / 2 ^ 41)) (Fin 4420) = Fin (- (847824620085051 / 2 ^ 41))"
  "dmul (Fin (72897620921549 / 2 ^ 39)) (Fin (8151311542752029 / 2 ^ 54)) = Fin (8444249301319703 / 2 ^ 47)"
  "dmul (Fin (847824620085051 / 2 ^ 41)) (Fin (8151311542752029 / 2 ^ 54)) = Fin (1534524199248961 / 2 ^ 43)"
  "ddiv (Fin (72897620921549 / 2 ^ 39)) (Fin 4420) = Fin (540431955284461 / 2 ^ 54)"
  "dmul (Fin (540431955284461 / 2 ^ 54)) (Fin 100) = Fin (3377699720527881 / 2 ^ 50)"
  "ddiv (Fin (- (847824620085051 / 2 ^ 41))) (Fin 4420) = Fin (- (6285411120123745 / 2 ^ 56))"
  "dmul (Fin (- (6285411120123745 / 2 ^ 56))) (Fin 100) = Fin (- (1227619359399169 / 2 ^ 47))"
  "ddiv (Fin (8444249301319703 / 2 ^ 47)) (Fin (1534524199248961 / 2 ^ 43)) = Fin (6195653028062329 / 2 ^ 54)"
  "dmul (Fin (5404319552844595 / 2 ^ 53)) (Fin (8444249301319703 / 2 ^ 47)) = Fin (2533274790395911 / 2 ^ 46)"
  "dsub (Fin 1) (Fin (5404319552844595 / 2 ^ 53)) = Fin (3602879701896397 / 2 ^ 53)"
  "dmul (Fin (3602879701896397 / 2 ^ 53)) (Fin (1534524199248961 / 2 ^ 43)) = Fin (4910477437596675 / 2 ^ 46)"
  "dsub (Fin (2533274790395911 / 2 ^ 46)) (Fin (4910477437596675 / 2 ^ 46)) = Fin (- (594300661800191 / 2 ^ 44))"
  by (simp_all add: double_eval)

lemma quoted_order_result:
  "analyze_order_ieee \<lparr>direction = long_label, win_rate = round_double 0.6,
       current_price = Fin 4420, take_profit = round_double 4552.6,
       stop_loss = round_double 4034.454\<rparr> (Fin 100) (Fin 20)
   = Inr (Some \<lparr>res_direction = long_label,
        res_entry_price = Fin 4420,
        res_take_profit = Fin (2502818318306509 / 2 ^ 39),
        res_stop_loss = Fin (8871858169454789 / 2 ^ 41),
        res_profit_loss_ratio = Fin (6195653028062329 / 2 ^ 54),
        res_potential_profit = Fin (8444249301319703 / 2 ^ 47),
        res_potential_loss = Fin (1534524199248961 / 2 ^ 43),
        res_take_profit_pct = Fin (3377699720527881 / 2 ^ 50),
        res_stop_loss_pct = Fin (- (1227619359399169 / 2 ^ 47)),
        res_capital = Fin 100,
        res_position_value = Fin 2000,
        res_leverage = Fin 20,
        res_win_rate = Fin (5404319552844595 / 2 ^ 53),
        res_expected_value = Fin (- (594300661800191 / 2 ^ 44))\<rparr>)"
  unfolding quoted_literals analyze_order_ieee_cases
  apply (simp only: order.simps quoted_steps)
  apply simp
  done

lemma quoted_order_fields:
  obtains r where
    "analyze_order_ieee \<lparr>direction = long_label, win_rate = round_double 0.6,
        current_price = Fin 4420, take_profit = round_double 4552.6,
        stop_loss = round_double 4034.454\<rparr> (Fin 100) (Fin 20) = Inr (Some r)"
    "res_position_value r = Fin 2000"
    "res_potential_profit r = Fin (8444249301319703 / 2 ^ 47)"
    "res_potential_loss r = Fin (1534524199248961 / 2 ^ 43)"
    "res_profit_loss_ratio r = Fin (6195653028062329 / 2 ^ 54)"
    "res_expected_value r = Fin (- (594300661800191 / 2 ^ 44))"
  unfolding quoted_order_result by simp

section \<open>Numeric strings hold no percent sign\<close>

lemma set_split_run:
  "set s = set (takeWhile P s) \<union> set (dropWhile P s)"
  by (metis set_append takeWhile_dropWhile_id)

lemma takeWhile_chars: "c \<in> set (takeWhile P s) \<Longrightarrow> P c"
  by (rule set_takeWhileD [THEN conjunct2])

lemma split_sign_chars:
  assumes "split_sign t = (neg, body)" and "c \<in> set t"
  shows "c \<in> set body \<or> c = CHR ''-'' \<or> c = CHR ''+''"
  using assms by (cases t) (auto simp: split_sign_def split: if_splits)

lemma parse_exponent_chars:
  assumes "parse_exponent s = Some e" and "c \<in> set s"
  shows "float_char c"
proof (cases s)
  case Nil
  with assms show ?thesis by simp
next
  case (Cons a t)
  obtain neg u where su: "split_sign t = (neg, u)" by (cases "split_sign t")
  from assms(1) Cons su have a: "a = CHR ''e'' \<or> a = CHR ''E''" and u: "list_all in_run u"
    by (auto simp: parse_exponent_def split: if_splits)
  from assms(2) Cons have "c = a \<or> c \<in> set t" by simp
  then show ?thesis
  proof
    assume "c = a" with a show ?thesis by (auto simp: float_char_def)
  next
    assume "c \<in> set t"
    from split_sign_chars [OF su this] u show ?thesis
      by (auto simp: float_char_def list_all_iff)
  qed
qed

lemma parse_number_chars:
  assumes "parse_number s = Some r" and "c \<in> set s"
  shows "float_char c"
proof -
  from assms(2) have "c \<in> set (takeWhile in_run s) \<or> c \<in> set (dropWhile in_run s)"
    using set_split_run [of s in_run] by simp
  then show ?thesis
  proof
    assume "c \<in> set (takeWhile in_run s)"
    then show ?thesis by (auto dest: takeWhile_chars simp: float_char_def)
  next
    assume c: "c \<in> set (dropWhile in_run s)"
    show ?thesis
    proof (cases "dropWhile in_run s")
      case Nil
      with c show ?thesis by simp
    next
      case (Cons a t)
      show ?thesis
      proof (cases "a = CHR ''.''")
        case True
        with assms(1) Cons obtain e where e: "parse_exponent (dropWhile in_run t) = Some e"
          by (auto simp: parse_number_def Let_def split: if_splits option.splits)
        from c Cons have "c = a \<or> c \<in> set (takeWhile in_run t) \<or> c \<in> set (dropWhile in_run t)"
          using set_split_run [of t in_run] by auto
        with True e show ?thesis
          by (auto dest: takeWhile_chars parse_exponent_chars simp: float_char_def)
      next
        case False
        with assms(1) Cons obtain e where e: "parse_exponent (a # t) = Some e"
          by (auto simp: parse_number_def Let_def split: if_splits option.splits)
        from c Cons e show ?thesis by (auto dest: parse_exponent_chars)
      qed
    qed
  qed
qed

lemma word_chars:
  assumes "map lower body \<in> set [''inf'', ''infinity''] \<or> map lower body = ''nan''"
    and "c \<in> set body"
  shows "float_char c"
proof -
  from assms(2) have "lower c \<in> set (map lower body)" by simp
  with assms(1) have "lower c \<in> set ''infatyn''" by auto
  then show ?thesis by (simp add: float_char_def)
qed

lemma float_ascii_chars:
  assumes "float_ascii s = Some r" and "c \<in> set s"
  shows "float_char c"
proof -
  let ?u = "dropWhile is_space s"
  let ?t = "rev (dropWhile is_space (rev ?u))"
  obtain neg body where sb: "split_sign ?t = (neg, body)" by (cases "split_sign ?t")
  from assms(1) sb have x: "(map lower body \<in> set [''inf'', ''infinity'']
        \<or> map lower body = ''nan'') \<or> (\<exists>x. parse_number body = Some x)"
    by (auto simp: float_ascii_def Let_def split: if_splits option.splits)
  have body: "float_char c" if c: "c \<in> set body"
    using x
  proof
    assume "map lower body \<in> set [''inf'', ''infinity''] \<or> map lower body = ''nan''"
    from word_chars [OF this c] show ?thesis .
  next
    assume "\<exists>y. parse_number body = Some y"
    then obtain y where "parse_number body = Some y" ..
    from parse_number_chars [OF this c] show ?thesis .
  qed
  from assms(2) have "c \<in> set (takeWhile is_space s) \<or> c \<in> set ?u"
    using set_split_run [of s is_space] by simp
  then show ?thesis
  proof
    assume "c \<in> set (takeWhile is_space s)"
    then show ?thesis by (auto dest: takeWhile_chars simp: float_char_def)
  next
    assume "c \<in> set ?u"
    then have "c \<in> set (rev ?u)" by simp
    then have "c \<in> set (takeWhile is_space (rev ?u)) \<or> c \<in> set (dropWhile is_space (rev ?u))"
      using set_split_run [of "rev ?u" is_space] by simp
    then show ?thesis
    proof
      assume "c \<in> set (takeWhile is_space (rev ?u))"
      then show ?thesis by (auto dest: takeWhile_chars simp: float_char_def)
    next
      assume "c \<in> set (dropWhile is_space (rev ?u))"
      then have "c \<in> set ?t" by simp
      from split_sign_chars [OF sb this] body show ?thesis
        by (auto simp: float_char_def)
    qed
  qed
qed

lemma not_float_char: "\<not> float_char (CHR ''%'')" "\<not> float_char (CHR ''?'')"
  by (simp_all add: float_char_def is_space_def in_run_def is_digit_def lower_def)

lemma char_of_percent: "char_of (37::nat) = CHR ''%''"
proof -
  have "of_char (CHR ''%'') = (37::nat)" by simp
  with char_of_char [of "CHR ''%''", where ?'a = nat] show ?thesis by (simp only:)
qed

lemma to_ascii_percent:
  "37 \<in> set p \<Longrightarrow> CHR ''%'' \<in> set (to_ascii U p) \<or> CHR ''?'' \<in> set (to_ascii U p)"
proof (induction p)
  case Nil
  then show ?case by simp
next
  case (Cons c cs)
  show ?case
  proof (cases "c = 37")
    case True
    then have "char_of c = CHR ''%''" by (simp only: char_of_percent)
    with True show ?thesis by simp
  next
    case False
    with Cons show ?thesis by (auto split: uclass.splits)
  qed
qed

lemma float_str_no_percent:
  assumes "float_str U p = Some x"
  shows "37 \<notin> set p"
proof
  assume in_p: "37 \<in> set p"
  show False
  proof (cases "list_all (\<lambda>c. c < 128) p")
    case True
    with assms have a: "float_ascii (map char_of p) = Some x" by (simp add: float_str_def)
    from in_p have "char_of (37::nat) \<in> char_of ` set p" by (rule imageI)
    then have "CHR ''%'' \<in> set (map char_of p)" by (simp only: char_of_percent set_map)
    from float_ascii_chars [OF a this] not_float_char show False by simp
  next
    case False
    with assms have a: "float_ascii (to_ascii U p) = Some x" by (simp add: float_str_def)
    from to_ascii_percent [OF in_p, of U] float_ascii_chars [OF a] not_float_char
    show False by blast
  qed
qed

lemma float_str_Nil: "float_str U [] = None"
  by (simp add: float_str_def float_ascii_def split_sign_def lower_def parse_number_def
      parse_exponent_def)

lemma strip_numeric_prefix:
  assumes "float_str U p = Some x"
  shows "strip_chars (p @ percent) percent = p"
proof -
  from assms have ne: "p \<noteq> []" using float_str_Nil [of U] by auto
  have no: "37 \<notin> set p" by (rule float_str_no_percent [OF assms])
  from ne no have h: "hd p \<noteq> 37" and l: "last p \<noteq> 37"
    by (metis hd_in_set, metis last_in_set)
  from ne h have 1: "dropWhile (\<lambda>c. c = 37) (p @ [37]) = p @ [37]"
    by (cases p) auto
  from ne l have 2: "dropWhile (\<lambda>c. c = 37) (rev p) = rev p"
    by (cases "rev p") (auto simp: last_rev [symmetric] hd_rev)
  show ?thesis by (simp add: strip_chars_def percent_def 1 2)
qed

lemma endswith_percent: "endswith (p @ percent) percent"
  by (simp add: endswith_def percent_def)

section \<open>Evaluating the resolver on ASCII literals\<close>

lemma percent_codes: "percent = codes ''%''"
  by (simp add: percent_def codes_def)

lemma codes_eq_iff: "codes s = codes t \<longleftrightarrow> s = t"
  unfolding codes_def by (rule inj_map_eq_map) (simp add: inj_on_def)

lemma endswith_codes: "endswith (codes s) (codes t) = endswith s t"
proof -
  have "drop n (codes s) = codes (drop n s)" for n by (simp add: codes_def drop_map)
  then show ?thesis by (simp add: endswith_def codes_eq_iff) (simp add: codes_def)
qed

lemma dropWhile_codes:
  "dropWhile (\<lambda>c. c \<in> set (codes t)) (codes s) = codes (dropWhile (\<lambda>c. c \<in> set t) s)"
  by (induction s) (auto simp: codes_def)

lemma strip_codes: "strip_chars (codes s) (codes t) = codes (strip_chars s t)"
proof -
  have r: "rev (codes u) = codes (rev u)" for u by (simp add: codes_def rev_map)
  show ?thesis by (simp only: strip_chars_def dropWhile_codes r)
qed

lemma float_str_codes:
  assumes "list_all (\<lambda>c. of_char c < (128::nat)) s"
  shows "float_str U (codes s) = float_ascii s"
proof -
  have "map char_of (codes s) = s" by (simp add: codes_def comp_def)
  moreover from assms have "list_all (\<lambda>c. c < 128) (codes s)"
    by (simp add: codes_def list_all_iff)
  ultimately show ?thesis by (simp add: float_str_def)
qed

lemmas float_eval_defs =
  strip_chars_def endswith_def float_ascii_def split_sign_def is_space_def parse_number_def
  in_run_def is_digit_def valid_digitpart_def parse_exponent_def digits_val_def digit_val_def
  scale10_def lower_def

lemma float_ascii_examples:
  "float_ascii ''10'' = Some (Fin 10)"
  "float_ascii ''-5'' = Some (Fin (- 5))"
  "float_ascii ''%10'' = None"
  "float_ascii ''10%'' = None"
  "float_ascii ''abc'' = None"
  by (simp_all add: float_eval_defs double_eval)

lemma resolver_steps:
  "ddiv (Fin 10) (Fin 100) = Fin (3602879701896397 / 2 ^ 55)"
  "dadd (Fin 1) (Fin (3602879701896397 / 2 ^ 55)) = Fin (2476979795053773 / 2 ^ 51)"
  "dmul (Fin 100) (Fin (2476979795053773 / 2 ^ 51)) = Fin (110 + 1 / 2 ^ 46)"
  "ddiv (Fin (- 5)) (Fin 100) = Fin (- (3602879701896397 / 2 ^ 56))"
  "dadd (Fin 1) (Fin (- (3602879701896397 / 2 ^ 56))) = Fin (4278419646001971 / 2 ^ 52)"
  "dmul (Fin 100) (Fin (4278419646001971 / 2 ^ 52)) = Fin 95"
  by (simp_all add: double_eval)

lemma resolver_examples:
  "calc_price_from_input U (Fin 100) (Str (codes ''10%'')) = Inr (Fin (110 + 1 / 2 ^ 46))"
  "calc_price_from_input U (Fin 100) (Str (codes ''-5%'')) = Inr (Fin 95)"
  "calc_price_from_input U (Fin 100) (Str (codes ''%10%'')) = Inr (Fin (110 + 1 / 2 ^ 46))"
  "calc_price_from_input U (Fin 100) (Str (codes ''10%%'')) = Inr (Fin (110 + 1 / 2 ^ 46))"
  "calc_price_from_input U (Fin 100) (Str (codes ''abc%'')) = Inl ValueError"
proof -
  have e: "endswith ''10%'' ''%''" "endswith ''-5%'' ''%''" "endswith ''%10%'' ''%''"
    "endswith ''10%%'' ''%''" "endswith ''abc%'' ''%''"
    by (simp_all add: endswith_def)
  have s: "strip_chars ''10%'' ''%'' = ''10''" "strip_chars ''-5%'' ''%'' = ''-5''"
    "strip_chars ''%10%'' ''%'' = ''10''" "strip_chars ''10%%'' ''%'' = ''10''"
    "strip_chars ''abc%'' ''%'' = ''abc''"
    by (simp_all add: strip_chars_def)
  have f: "float_str U (codes ''10'') = Some (Fin 10)"
    "float_str U (codes ''-5'') = Some (Fin (- 5))"
    "float_str U (codes ''abc'') = None"
    by (simp_all add: float_str_codes float_ascii_examples)
  show "calc_price_from_input U (Fin 100) (Str (codes ''10%'')) = Inr (Fin (110 + 1 / 2 ^ 46))"
    "calc_price_from_input U (Fin 100) (Str (codes ''-5%'')) = Inr (Fin 95)"
    "calc_price_from_input U (Fin 100) (Str (codes ''%10%'')) = Inr (Fin (110 + 1 / 2 ^ 46))"
    "calc_price_from_input U (Fin 100) (Str (codes ''10%%'')) = Inr (Fin (110 + 1 / 2 ^ 46))"
    "calc_price_from_input U (Fin 100) (Str (codes ''abc%'')) = Inl ValueError"
    by (simp_all only: calc_price_from_input.simps percent_codes endswith_codes strip_codes
        e s f if_True py_float.simps option.case bind_err_def sum.case resolver_steps)
qed

lemma int_examples:
  "round_double (of_int 95) = Fin 95"
  "round_double (of_int (2 ^ 1024)) = PInf"
  by (simp_all add: double_eval)

section \<open>How the first loop of the entry point fails\<close>

lemma calc_price_errors:
  assumes "calc_price_from_input U p v = Inl e"
  shows "e = ValueError \<or> e = OverflowError" and "fits_float v \<Longrightarrow> e = ValueError"
  using assms
  by (cases v; auto simp: bind_err_def fits_float_def split: if_splits option.splits double.splits)+

lemma build_orders_error:
  assumes "build_orders U orders_input = Inl e"
  shows "e = ValueError \<or> e = OverflowError"
    and "list_all ints_fit orders_input \<Longrightarrow> e = ValueError"
proof -
  have "(e = ValueError \<or> e = OverflowError)
        \<and> (list_all ints_fit orders_input \<longrightarrow> e = ValueError)"
    using assms
  proof (induction orders_input)
    case Nil
    then show ?case by simp
  next
    case (Cons oi rest)
    obtain d w p tp sl where oi: "oi = (d, w, p, tp, sl)" by (cases oi)
    show ?case
    proof (cases "calc_price_from_input U p tp")
      case (Inl a)
      with Cons.prems oi have "a = e" by (simp add: bind_err_def)
      with calc_price_errors [OF Inl] oi show ?thesis by (simp add: ints_fit_def)
    next
      case tpr: (Inr t)
      show ?thesis
      proof (cases "calc_price_from_input U p sl")
        case (Inl a)
        with Cons.prems oi tpr have "a = e" by (simp add: bind_err_def)
        with calc_price_errors [OF Inl] oi show ?thesis by (simp add: ints_fit_def)
      next
        case (Inr s)
        with Cons.prems oi tpr have "build_orders U rest = Inl e"
          by (simp add: bind_err_def split: sum.splits)
        from Cons.IH [OF this] show ?thesis by simp
      qed
    qed
  qed
  then show "e = ValueError \<or> e = OverflowError"
    and "list_all ints_fit orders_input \<Longrightarrow> e = ValueError" by simp_all
qed

lemma build_orders_fails:
  assumes "oi \<in> set orders_input" and "has_spec oi s"
    and "\<And>p. calc_price_from_input U p (Str s) = Inl a"
  shows "\<exists>e. build_orders U orders_input = Inl e"
  using assms(1)
proof (induction orders_input)
  case Nil
  then show ?case by simp
next
  case (Cons x rest)
  obtain d w p tp sl where x: "x = (d, w, p, tp, sl)" by (cases x)
  show ?case
  proof (cases "x = oi")
    case True
    with assms(2) x have "tp = Str s \<or> sl = Str s" by (simp add: has_spec_def)
    with assms(3) [of p] x show ?thesis
      by (auto simp: bind_err_def split: sum.splits)
  next
    case False
    with Cons.prems have "oi \<in> set rest" by simp
    from Cons.IH [OF this] obtain e where "build_orders U rest = Inl e" ..
    with x show ?thesis by (auto simp: bind_err_def split: sum.splits)
  qed
qed

lemma build_orders_raises:
  "build_orders U orders_input = Inl e \<Longrightarrow>
     analyze_trading_orders U display_and_plot capital leverage orders_input = Inl e"
  by (simp add: analyze_trading_orders_def bind_err_def)

section \<open>The second loop of the entry point\<close>

lemma analyze_order_ieee_returns:
  assumes "leverage \<noteq> Fin 0" and "current_price order \<noteq> Fin 0"
  shows "\<exists>x. analyze_order_ieee order capital leverage = Inr x"
  using assms unfolding analyze_order_ieee_cases by simp

lemma analyze_order_ieee_raises:
  assumes "leverage = Fin 0 \<or> current_price order = Fin 0"
  shows "analyze_order_ieee order capital leverage = Inl ZeroDivisionError"
  using assms unfolding analyze_order_ieee_cases by simp

lemma analyze_all_valid_results:
  assumes "leverage \<noteq> Fin 0" and "\<forall>order \<in> set orders. current_price order \<noteq> Fin 0"
  shows "analyze_all orders capital leverage = Inr (valid_results orders capital leverage)"
  using assms(2)
proof (induction orders)
  case Nil
  show ?case by (simp add: valid_results_def)
next
  case (Cons order orders)
  from Cons.prems have cp: "current_price order \<noteq> Fin 0"
    and rest: "\<forall>order \<in> set orders. current_price order \<noteq> Fin 0" by simp_all
  from analyze_order_ieee_returns [OF assms(1) cp]
  obtain x where x: "analyze_order_ieee order capital leverage = Inr x" ..
  from Cons.IH [OF rest] x show ?case
    by (cases x) (simp_all add: valid_results_def bind_err_def)
qed

lemma analyze_all_raises:
  assumes "order \<in> set orders"
    and "leverage = Fin 0 \<or> current_price order = Fin 0"
  shows "analyze_all orders capital leverage = Inl ZeroDivisionError"
  using assms(1)
proof (induction orders)
  case Nil
  then show ?case by simp
next
  case (Cons a rest)
  show ?case
  proof (cases "leverage = Fin 0 \<or> current_price a = Fin 0")
    case True
    from analyze_order_ieee_raises [OF this] show ?thesis by (simp add: bind_err_def)
  next
    case False
    then have "\<exists>x. analyze_order_ieee a capital leverage = Inr x"
      by (simp add: analyze_order_ieee_returns)
    then obtain x where x: "analyze_order_ieee a capital leverage = Inr x" ..
    from False assms(2) Cons.prems have "order \<in> set rest" by auto
    from Cons.IH [OF this] x show ?thesis by (simp add: bind_err_def)
  qed
qed

lemma valid_results_empty:
  assumes "\<forall>order \<in> set orders. analyze_order_ieee order capital leverage = Inr None"
  shows "valid_results orders capital leverage = []"
  using assms by (simp add: valid_results_def)

lemma valid_results_nonempty:
  assumes "order \<in> set orders" and "analyze_order_ieee order capital leverage = Inr (Some r)"
  shows "valid_results orders capital leverage \<noteq> []"
  using assms by (auto simp: valid_results_def intro!: bexI [of _ order])

lemma small_steps:
  "round_double 90 = Fin 90" "round_double 100 = Fin 100" "round_double 110 = Fin 110"
  "round_double 120 = Fin 120"
  by (simp_all add: double_eval)

lemma int_specs:
  "calc_price_from_input U p (IntNum 90) = Inr (Fin 90)"
  "calc_price_from_input U p (IntNum 100) = Inr (Fin 100)"
  "calc_price_from_input U p (IntNum 110) = Inr (Fin 110)"
  "calc_price_from_input U p (IntNum 120) = Inr (Fin 120)"
  "calc_price_from_input U p (FloatNum v) = Inr v"
  by (simp_all add: small_steps)

lemmas build_eval =
  build_orders.simps int_specs resolver_examples bind_err_def sum.case

lemma example_orders:
  "analyze_order_ieee \<lparr>direction = long_label, win_rate = Fin (1/2), current_price = Fin 100,
       take_profit = Fin 110, stop_loss = Fin 100\<rparr> (Fin 100) (Fin 2) = Inr None"
  "analyze_order_ieee \<lparr>direction = short_label, win_rate = Fin (1/2), current_price = Fin 100,
       take_profit = Fin 90, stop_loss = Fin 120\<rparr> (Fin 100) (Fin 2)
     = Inr (Some \<lparr>res_direction = short_label, res_entry_price = Fin 100,
          res_take_profit = Fin 90, res_stop_loss = Fin 120, res_profit_loss_ratio = Fin (1/2),
          res_potential_profit = Fin 20, res_potential_loss = Fin 40,
          res_take_profit_pct = Fin 10, res_stop_loss_pct = Fin 20, res_capital = Fin 100,
          res_position_value = Fin 200, res_leverage = Fin 2, res_win_rate = Fin (1/2),
          res_expected_value = Fin (- 10)\<rparr>)"
  "analyze_order_ieee \<lparr>direction = long_label, win_rate = Fin (1/2), current_price = Fin 100,
       take_profit = Fin 110, stop_loss = Fin 90\<rparr> (Fin 100) (Fin 2)
     = Inr (Some \<lparr>res_direction = long_label, res_entry_price = Fin 100,
          res_take_profit = Fin 110, res_stop_loss = Fin 90, res_profit_loss_ratio = Fin 1,
          res_potential_profit = Fin 20, res_potential_loss = Fin 20,
          res_take_profit_pct = Fin 10, res_stop_loss_pct = Fin (- 10), res_capital = Fin 100,
          res_position_value = Fin 200, res_leverage = Fin 2, res_win_rate = Fin (1/2),
          res_expected_value = Fin 0\<rparr>)"
  unfolding analyze_order_ieee_cases
  by (simp_all add: double_eval short_label_def long_label_def)

section \<open>The branch structure on floats\<close>

text \<open>
  What the exact reading shows about the branches of the evaluator holds of the floats as
  well: the zero leverage raises, a zero potential loss gives \<open>None\<close>, every direction but
  the long label runs the short branch, and the short branch computes its stop-loss
  percentage with the expression of the long branch.
\<close>

lemma short_accepted_ieee:
  assumes "analyze_order_ieee order capital leverage = Inr (Some r)"
    and "direction order \<noteq> long_label"
  shows "r = \<lparr>res_direction = direction order,
                res_entry_price = current_price order,
                res_take_profit = take_profit order,
                res_stop_loss = stop_loss order,
                res_profit_loss_ratio =
                  dabs (ddiv (dmul (dsub (current_price order) (take_profit order))
                                (ddiv (dmul capital leverage) (current_price order)))
                          (dmul (dsub (stop_loss order) (current_price order))
                                (ddiv (dmul capital leverage) (current_price order)))),
                res_potential_profit =
                  dmul (dsub (current_price order) (take_profit order))
                    (ddiv (dmul capital leverage) (current_price order)),
                res_potential_loss =
                  dmul (dsub (stop_loss order) (current_price order))
                    (ddiv (dmul capital leverage) (current_price order)),
                res_take_profit_pct =
                  dmul (ddiv (dsub (current_price order) (take_profit order))
                          (current_price order)) (Fin 100),
                res_stop_loss_pct =
                  dmul (ddiv (dsub (stop_loss order) (current_price order))
                          (current_price order)) (Fin 100),
                res_capital = capital,
                res_position_value = dmul capital leverage,
                res_leverage = leverage,
                res_win_rate = win_rate order,
                res_expected_value =
                  dsub (dmul (win_rate order)
                         (dmul (dsub (current_price order) (take_profit order))
                            (ddiv (dmul capital leverage) (current_price order))))
                    (dmul (dsub (Fin 1) (win_rate order))
                         (dmul (dsub (stop_loss order) (current_price order))
                            (ddiv (dmul capital leverage) (current_price order))))\<rparr>"
  using assms unfolding analyze_order_ieee_cases
  by (auto simp only: sum.inject option.inject sum.distinct option.distinct split: if_split_asm)

lemma zero_leverage_raises_ieee:
  "analyze_order_ieee order capital (Fin 0) = Inl ZeroDivisionError"
  by (simp add: analyze_order_ieee_raises)

lemma zero_loss_guard_ieee:
  "leverage \<noteq> Fin 0 \<Longrightarrow> current_price order \<noteq> Fin 0 \<Longrightarrow>
     potential_loss_ieee order capital leverage = Fin 0 \<Longrightarrow>
     analyze_order_ieee order capital leverage = Inr None"
  "analyze_order_ieee order capital leverage = Inr (Some r) \<Longrightarrow>
     res_potential_loss r = potential_loss_ieee order capital leverage
     \<and> res_potential_loss r \<noteq> Fin 0
     \<and> res_profit_loss_ratio r = dabs (ddiv (res_potential_profit r) (res_potential_loss r))"
  "leverage \<noteq> Fin 0 \<Longrightarrow> current_price order \<noteq> Fin 0 \<Longrightarrow>
     analyze_order_ieee order capital leverage \<noteq> Inl ZeroDivisionError"
proof -
  show "analyze_order_ieee order capital leverage = Inr None"
    if "leverage \<noteq> Fin 0" "current_price order \<noteq> Fin 0"
      "potential_loss_ieee order capital leverage = Fin 0"
    using that unfolding analyze_order_ieee_cases potential_loss_ieee_def loss_distance_def
    by (auto split: if_splits)
  show "res_potential_loss r = potential_loss_ieee order capital leverage
     \<and> res_potential_loss r \<noteq> Fin 0
     \<and> res_profit_loss_ratio r = dabs (ddiv (res_potential_profit r) (res_potential_loss r))"
    if r: "analyze_order_ieee order capital leverage = Inr (Some r)"
  proof (cases "direction order = long_label")
    case True
    have 1: "res_potential_loss r = potential_loss_ieee order capital leverage"
      by (subst long_accepted_ieee [OF r True])
        (simp only: result.select_convs potential_loss_ieee_def loss_distance_def True refl if_True)
    have 2: "res_profit_loss_ratio r = dabs (ddiv (res_potential_profit r) (res_potential_loss r))"
      by (subst (1 2 3) long_accepted_ieee [OF r True]) (simp only: result.select_convs)
    from 1 2 accepted_ieee_conditions(3) [OF r] show ?thesis by simp
  next
    case False
    have 1: "res_potential_loss r = potential_loss_ieee order capital leverage"
      by (subst short_accepted_ieee [OF r False])
        (simp only: result.select_convs potential_loss_ieee_def loss_distance_def False if_False)
    have 2: "res_profit_loss_ratio r = dabs (ddiv (res_potential_profit r) (res_potential_loss r))"
      by (subst (1 2 3) short_accepted_ieee [OF r False]) (simp only: result.select_convs)
    from 1 2 accepted_ieee_conditions(3) [OF r] show ?thesis by simp
  qed
  show "analyze_order_ieee order capital leverage \<noteq> Inl ZeroDivisionError"
    if "leverage \<noteq> Fin 0" "current_price order \<noteq> Fin 0"
    using that unfolding analyze_order_ieee_cases by (simp split: if_splits)
qed

lemma other_direction_is_short_ieee:
  assumes "direction order \<noteq> long_label"
  shows "analyze_order_ieee order capital leverage
       = map_sum id (map_option (\<lambda>r. r\<lparr>res_direction := direction order\<rparr>))
           (analyze_order_ieee (order\<lparr>direction := short_label\<rparr>) capital leverage)"
  unfolding analyze_order_ieee_cases using assms short_not_long by simp

lemma short_order_fields_ieee:
  assumes "analyze_order_ieee order capital leverage = Inr (Some r)"
    and "direction order \<noteq> long_label"
  shows "res_potential_profit r
        = dmul (dsub (current_price order) (take_profit order))
            (ddiv (res_position_value r) (current_price order))"
    and "res_potential_loss r
        = dmul (dsub (stop_loss order) (current_price order))
            (ddiv (res_position_value r) (current_price order))"
    and "res_take_profit_pct r
        = dmul (ddiv (dsub (current_price order) (take_profit order)) (current_price order))
            (Fin 100)"
    and "res_stop_loss_pct r
        = dmul (ddiv (dsub (stop_loss order) (current_price order)) (current_price order))
            (Fin 100)"
proof -
  note eq = short_accepted_ieee [OF assms]
  show "res_potential_profit r
        = dmul (dsub (current_price order) (take_profit order))
            (ddiv (res_position_value r) (current_price order))"
    by (subst (1 2) eq) (simp only: result.select_convs)
  show "res_potential_loss r
        = dmul (dsub (stop_loss order) (current_price order))
            (ddiv (res_position_value r) (current_price order))"
    by (subst (1 2) eq) (simp only: result.select_convs)
  show "res_take_profit_pct r
        = dmul (ddiv (dsub (current_price order) (take_profit order)) (current_price order))
            (Fin 100)"
    by (subst eq) (simp only: result.select_convs)
  show "res_stop_loss_pct r
        = dmul (ddiv (dsub (stop_loss order) (current_price order)) (current_price order))
            (Fin 100)"
    by (subst eq) (simp only: result.select_convs)
qed

lemma short_example_steps:
  "dmul (Fin 100) (Fin 20) = Fin 2000"
  "ddiv (Fin 2000) (Fin 4420) = Fin (8151311542752029 / 2 ^ 54)"
  "dsub (Fin 5000) (Fin 4420) = Fin 580"
  "dmul (Fin 580) (Fin (8151311542752029 / 2 ^ 54)) = Fin (4616953803511891 / 2 ^ 44)"
  "ddiv (Fin 580) (Fin 4420) = Fin (4727760694796177 / 2 ^ 55)"
  "dmul (Fin (4727760694796177 / 2 ^ 55)) (Fin 100) = Fin (7387126085619027 / 2 ^ 49)"
  by (simp_all add: double_eval)

lemma short_example_stop_loss_pct:
  "\<exists>r. analyze_order_ieee \<lparr>direction = short_label, win_rate = Fin (1/2),
            current_price = Fin 4420, take_profit = Fin 4000, stop_loss = Fin 5000\<rparr>
          (Fin 100) (Fin 20) = Inr (Some r)
     \<and> res_stop_loss_pct r = Fin (7387126085619027 / 2 ^ 49)"
proof -
  let ?o = "\<lparr>direction = short_label, win_rate = Fin (1/2),
            current_price = Fin 4420, take_profit = Fin 4000, stop_loss = Fin 5000\<rparr>"
  have pl: "potential_loss_ieee ?o (Fin 100) (Fin 20) = Fin (4616953803511891 / 2 ^ 44)"
    by (simp only: potential_loss_ieee_def loss_distance_def order.simps short_not_long if_False
        short_example_steps)
  have "\<exists>r. analyze_order_ieee ?o (Fin 100) (Fin 20) = Inr (Some r)"
    unfolding analyze_order_ieee_cases
    by (simp only: order.simps short_not_long if_False short_example_steps) simp
  then obtain r where r: "analyze_order_ieee ?o (Fin 100) (Fin 20) = Inr (Some r)" ..
  have d: "direction ?o \<noteq> long_label" by (simp add: short_not_long)
  from short_order_fields_ieee(4) [OF r d]
  have "res_stop_loss_pct r = Fin (7387126085619027 / 2 ^ 49)"
    by (simp only: order.simps short_example_steps)
  with r show ?thesis by blast
qed

section \<open>The claims\<close>

text \<open>
  The claims about which branch of the evaluator runs and which operands it combines (C3,
  C5, C8, C9) are stated on the exact reading \<open>analyze_order\<close>; the section on the branch
  structure on floats shows the same of \<open>analyze_order_ieee\<close>. The claims about values,
  validation, strings and exceptions (C1, C2, C4, C6, C7, C10) are stated on floats.
\<close>

text \<open>
  C1, as stated, fails in its quoted potential profit: for the long order with entry 4420,
  take-profit 4552.6, stop-loss 4034.454, win rate 0.6, capital 100 and leverage 20 the
  evaluator returns the potential profit 60.00000000000016, which is within 10^-12 of 60
  and not within 0.005 of the quoted 60.03.
\<close>

theorem quoted_profit_counterexample:
  "\<exists>r pp. analyze_order_ieee \<lparr>direction = long_label, win_rate = round_double 0.6,
            current_price = Fin 4420, take_profit = round_double 4552.6,
            stop_loss = round_double 4034.454\<rparr> (Fin 100) (Fin 20) = Inr (Some r)
     \<and> res_potential_profit r = Fin pp
     \<and> \<bar>pp - 60\<bar> < 1 / 10 ^ 12
     \<and> \<not> \<bar>pp - 60.03\<bar> \<le> 0.005"
proof -
  have "\<bar>8444249301319703 / 2 ^ 47 - 60\<bar> < (1 / 10 ^ 12 :: real)
    \<and> \<not> \<bar>8444249301319703 / 2 ^ 47 - 60.03\<bar> \<le> (0.005 :: real)"
    by simp
  with quoted_order_fields show ?thesis by metis
qed

text \<open>
  C1 (amended). Every result the evaluator returns for a long order satisfies, in the
  arithmetic of floats,
  position_value = capital * leverage,
  potential_profit = (take_profit - entry_price) * position_size,
  potential_loss = (entry_price - stop_loss) * position_size, with
  position_size = position_value / entry_price,
  profit_loss_ratio = abs (potential_profit / potential_loss) and
  expected_value = win_rate * potential_profit - (1 - win_rate) * potential_loss.
  For the long order with entry 4420, take-profit 4552.6, stop-loss 4034.454, win rate 0.6,
  capital 100 and leverage 20 the evaluator returns a result with position_value 2000,
  potential_profit within 0.005 of 60.00, potential_loss within 0.05 of 174.5,
  profit_loss_ratio within 0.0005 of 0.344 and expected_value within 0.05 of -33.8.
\<close>

theorem long_order_formulas:
  "(analyze_order_ieee order capital leverage = Inr (Some r)
      \<and> direction order = long_label \<longrightarrow>
        res_position_value r = dmul capital leverage
      \<and> res_potential_profit r =
          dmul (dsub (res_take_profit r) (res_entry_price r))
               (ddiv (res_position_value r) (res_entry_price r))
      \<and> res_potential_loss r =
          dmul (dsub (res_entry_price r) (res_stop_loss r))
               (ddiv (res_position_value r) (res_entry_price r))
      \<and> res_profit_loss_ratio r =
          dabs (ddiv (res_potential_profit r) (res_potential_loss r))
      \<and> res_expected_value r =
          dsub (dmul (res_win_rate r) (res_potential_profit r))
               (dmul (dsub (Fin 1) (res_win_rate r)) (res_potential_loss r)))
   \<and> (\<exists>r pp pl q ev.
        analyze_order_ieee \<lparr>direction = long_label, win_rate = round_double 0.6,
            current_price = Fin 4420, take_profit = round_double 4552.6,
            stop_loss = round_double 4034.454\<rparr> (Fin 100) (Fin 20) = Inr (Some r)
      \<and> res_position_value r = Fin 2000
      \<and> res_potential_profit r = Fin pp \<and> \<bar>pp - 60.00\<bar> \<le> 0.005
      \<and> res_potential_loss r = Fin pl \<and> \<bar>pl - 174.5\<bar> \<le> 0.05
      \<and> res_profit_loss_ratio r = Fin q \<and> \<bar>q - 0.344\<bar> \<le> 0.0005
      \<and> res_expected_value r = Fin ev \<and> \<bar>ev - (- 33.8)\<bar> \<le> 0.05)"
proof (intro conjI impI)
  assume a: "analyze_order_ieee order capital leverage = Inr (Some r)
      \<and> direction order = long_label"
  note eq = long_accepted_ieee [OF conjunct1 [OF a] conjunct2 [OF a]]
  show "res_position_value r = dmul capital leverage"
    by (subst eq) (simp only: result.select_convs)
  show "res_potential_profit r =
          dmul (dsub (res_take_profit r) (res_entry_price r))
               (ddiv (res_position_value r) (res_entry_price r))"
    by (subst (1 2 3 4 5) eq) (simp only: result.select_convs)
  show "res_potential_loss r =
          dmul (dsub (res_entry_price r) (res_stop_loss r))
               (ddiv (res_position_value r) (res_entry_price r))"
    by (subst (1 2 3 4 5) eq) (simp only: result.select_convs)
  show "res_profit_loss_ratio r =
          dabs (ddiv (res_potential_profit r) (res_potential_loss r))"
    by (subst (1 2 3) eq) (simp only: result.select_convs)
  show "res_expected_value r =
          dsub (dmul (res_win_rate r) (res_potential_profit r))
               (dmul (dsub (Fin 1) (res_win_rate r)) (res_potential_loss r))"
    by (subst (1 2 3 4 5) eq) (simp only: result.select_convs)
next
  have "\<bar>8444249301319703 / 2 ^ 47 - 60.00\<bar> \<le> (0.005 :: real)"
    "\<bar>1534524199248961 / 2 ^ 43 - 174.5\<bar> \<le> (0.05 :: real)"
    "\<bar>6195653028062329 / 2 ^ 54 - 0.344\<bar> \<le> (0.0005 :: real)"
    "\<bar>- (594300661800191 / 2 ^ 44) - (- 33.8)\<bar> \<le> (0.05 :: real)"
    by simp_all
  with quoted_order_fields
  show "\<exists>r pp pl q ev.
        analyze_order_ieee \<lparr>direction = long_label, win_rate = round_double 0.6,
            current_price = Fin 4420, take_profit = round_double 4552.6,
            stop_loss = round_double 4034.454\<rparr> (Fin 100) (Fin 20) = Inr (Some r)
      \<and> res_position_value r = Fin 2000
      \<and> res_potential_profit r = Fin pp \<and> \<bar>pp - 60.00\<bar> \<le> 0.005
      \<and> res_potential_loss r = Fin pl \<and> \<bar>pl - 174.5\<bar> \<le> 0.05
      \<and> res_profit_loss_ratio r = Fin q \<and> \<bar>q - 0.344\<bar> \<le> 0.0005
      \<and> res_expected_value r = Fin ev \<and> \<bar>ev - (- 33.8)\<bar> \<le> 0.05"
    by metis
qed

theorem long_order_formulas_witness:
  "\<exists>r. analyze_order_ieee \<lparr>direction = long_label, win_rate = Fin (1/2),
            current_price = Fin 100, take_profit = Fin 110, stop_loss = Fin 90\<rparr>
          (Fin 100) (Fin 2) = Inr (Some r)
     \<and> res_position_value r = Fin 200
     \<and> res_potential_profit r = Fin 20
     \<and> res_potential_loss r = Fin 20
     \<and> res_profit_loss_ratio r = Fin 1
     \<and> res_expected_value r = Fin 0"
proof -
  let ?o = "\<lparr>direction = long_label, win_rate = Fin (1/2),
            current_price = Fin 100, take_profit = Fin 110, stop_loss = Fin 90\<rparr>"
  obtain r where r: "analyze_order_ieee ?o (Fin 100) (Fin 2) = Inr (Some r)"
    unfolding analyze_order_ieee_cases by (simp add: double_eval)
  have a: "analyze_order_ieee ?o (Fin 100) (Fin 2) = Inr (Some r)
      \<and> direction ?o = long_label" using r by simp
  have e: "res_entry_price r = Fin 100" "res_take_profit r = Fin 110"
    "res_stop_loss r = Fin 90" "res_win_rate r = Fin (1/2)"
    using accepted_ieee_echo [OF r] by simp_all
  from long_order_formulas [of ?o "Fin 100" "Fin 2" r, THEN conjunct1, THEN mp, OF a] r e
  show ?thesis by (simp add: double_eval)
qed

text \<open>
  C2, as stated, fails in two ways. Where the leverage is zero, the long order with
  stop-loss equal to the entry price violates the ordering, and the evaluator raises
  ZeroDivisionError for it instead of returning \<open>None\<close>. Where the stop-loss is nan, the
  long order with entry 100 and take-profit 110 violates the ordering (no comparison with
  nan holds), and the evaluator returns a result, which does not satisfy the invariant.
\<close>

theorem violating_order_counterexample:
  "\<not> ordering_invariant_ieee \<lparr>direction = long_label, win_rate = Fin (1/2),
         current_price = Fin 100, take_profit = Fin 110, stop_loss = Fin 100\<rparr>
   \<and> analyze_order_ieee \<lparr>direction = long_label, win_rate = Fin (1/2),
         current_price = Fin 100, take_profit = Fin 110, stop_loss = Fin 100\<rparr>
       (Fin 100) (Fin 0) = Inl ZeroDivisionError
   \<and> \<not> ordering_invariant_ieee \<lparr>direction = long_label, win_rate = Fin (1/2),
         current_price = Fin 100, take_profit = Fin 110, stop_loss = NaN\<rparr>
   \<and> (\<exists>r. analyze_order_ieee \<lparr>direction = long_label, win_rate = Fin (1/2),
         current_price = Fin 100, take_profit = Fin 110, stop_loss = NaN\<rparr>
       (Fin 100) (Fin 1) = Inr (Some r) \<and> \<not> result_invariant_ieee r)"
  by (simp add: analyze_order_ieee_cases ordering_invariant_ieee_def result_invariant_ieee_def
      dsub_def)

text \<open>
  C2 (amended). For an order none of whose three prices is nan, with leverage and entry
  price not zero, the evaluator returns a result if and only if the ordering invariant of
  the order's direction holds (stop_loss < entry_price < take_profit for a long order,
  take_profit < entry_price < stop_loss otherwise) and the potential loss it computes is
  not zero; and an order that violates the invariant yields \<open>None\<close>, not an error. Every
  result returned for an order none of whose prices is nan satisfies the invariant on its
  own fields. With leverage zero or entry price zero the evaluator raises
  ZeroDivisionError.
\<close>

theorem result_iff_ordering_invariant:
  "(no_nan_price order \<and> leverage \<noteq> Fin 0 \<and> current_price order \<noteq> Fin 0 \<longrightarrow>
      ((\<exists>r. analyze_order_ieee order capital leverage = Inr (Some r))
         \<longleftrightarrow> ordering_invariant_ieee order
             \<and> potential_loss_ieee order capital leverage \<noteq> Fin 0)
      \<and> (\<not> ordering_invariant_ieee order
           \<longrightarrow> analyze_order_ieee order capital leverage = Inr None))
   \<and> (no_nan_price order \<and> analyze_order_ieee order capital leverage = Inr (Some r)
        \<longrightarrow> result_invariant_ieee r)
   \<and> (leverage = Fin 0 \<or> current_price order = Fin 0
        \<longrightarrow> analyze_order_ieee order capital leverage = Inl ZeroDivisionError)"
proof (intro conjI impI)
  assume h: "no_nan_price order \<and> leverage \<noteq> Fin 0 \<and> current_price order \<noteq> Fin 0"
  then have g: "ordering_invariant_ieee order \<longleftrightarrow>
     (if direction order = long_label
      then \<not> dle (current_price order) (stop_loss order)
           \<and> \<not> dle (take_profit order) (current_price order)
      else \<not> dle (stop_loss order) (current_price order)
           \<and> \<not> dle (current_price order) (take_profit order))"
    by (simp add: guards_iff_invariant)
  show "(\<exists>r. analyze_order_ieee order capital leverage = Inr (Some r))
         \<longleftrightarrow> ordering_invariant_ieee order
             \<and> potential_loss_ieee order capital leverage \<noteq> Fin 0"
    using h unfolding g analyze_order_ieee_cases potential_loss_ieee_def loss_distance_def
    by auto
  {
    assume "\<not> ordering_invariant_ieee order"
    then show "analyze_order_ieee order capital leverage = Inr None"
      using h unfolding g analyze_order_ieee_cases by (auto split: if_splits)
  }
next
  assume a: "no_nan_price order \<and> analyze_order_ieee order capital leverage = Inr (Some r)"
  note r = conjunct2 [OF a]
  from guards_iff_invariant [OF conjunct1 [OF a]] accepted_ieee_conditions(4,5) [OF r]
  have "ordering_invariant_ieee order" by (cases "direction order = long_label") simp_all
  then show "result_invariant_ieee r"
    unfolding ordering_invariant_ieee_def result_invariant_ieee_def
    by (simp add: accepted_ieee_echo [OF r])
next
  assume "leverage = Fin 0 \<or> current_price order = Fin 0"
  then show "analyze_order_ieee order capital leverage = Inl ZeroDivisionError"
    unfolding analyze_order_ieee_cases by simp
qed

theorem result_iff_ordering_invariant_witness:
  "no_nan_price \<lparr>direction = short_label, win_rate = Fin (1/2), current_price = Fin 4420,
                   take_profit = Fin 4420, stop_loss = Fin 5000\<rparr>
   \<and> \<not> ordering_invariant_ieee \<lparr>direction = short_label, win_rate = Fin (1/2),
         current_price = Fin 4420, take_profit = Fin 4420, stop_loss = Fin 5000\<rparr>
   \<and> analyze_order_ieee \<lparr>direction = short_label, win_rate = Fin (1/2),
         current_price = Fin 4420, take_profit = Fin 4420, stop_loss = Fin 5000\<rparr>
       (Fin 100) (Fin 20) = Inr None
   \<and> analyze_order_ieee \<lparr>direction = short_label, win_rate = Fin (1/2),
         current_price = Fin 0, take_profit = Fin 4420, stop_loss = Fin 5000\<rparr>
       (Fin 100) (Fin 20) = Inl ZeroDivisionError"
proof -
  let ?o = "\<lparr>direction = short_label, win_rate = Fin (1/2), current_price = Fin 4420,
              take_profit = Fin 4420, stop_loss = Fin 5000\<rparr>"
  let ?z = "\<lparr>direction = short_label, win_rate = Fin (1/2), current_price = Fin 0,
              take_profit = Fin 4420, stop_loss = Fin 5000\<rparr>"
  have h: "no_nan_price ?o \<and> Fin 20 \<noteq> Fin 0 \<and> current_price ?o \<noteq> Fin 0"
    by (simp add: no_nan_price_def)
  have v: "\<not> ordering_invariant_ieee ?o" by (simp add: ordering_invariant_ieee_def)
  have z: "Fin 20 = Fin 0 \<or> current_price ?z = Fin 0" by simp
  from result_iff_ordering_invariant [of ?o "Fin 20" "Fin 100", THEN conjunct1, THEN mp, OF h,
      THEN conjunct2, THEN mp, OF v]
    result_iff_ordering_invariant [of ?z "Fin 20" "Fin 100", THEN conjunct2, THEN conjunct2,
      THEN mp, OF z] h v
  show ?thesis by simp
qed

text \<open>
  C3. For every accepted short order the potential profit, the potential loss and the
  take-profit percentage mirror the long formulas:
  potential_profit = (entry_price - take_profit) * position_size,
  potential_loss = (stop_loss - entry_price) * position_size,
  take_profit_pct = (entry_price - take_profit) / entry_price * 100.
  The stop-loss percentage does not: the short branch computes
  (stop_loss - entry_price) / entry_price * 100, the expression of the long branch, which
  differs from the mirrored (entry_price - stop_loss) / entry_price * 100 for every accepted
  short order.
\<close>

theorem short_order_fields:
  "analyze_order order capital leverage = Inr (Some r) \<and> direction order \<noteq> long_label \<longrightarrow>
      res_potential_profit r
        = (current_price order - take_profit order) * (res_position_value r / current_price order)
    \<and> res_potential_loss r
        = (stop_loss order - current_price order) * (res_position_value r / current_price order)
    \<and> res_take_profit_pct r
        = (current_price order - take_profit order) / current_price order * 100
    \<and> res_stop_loss_pct r
        = (stop_loss order - current_price order) / current_price order * 100
    \<and> res_stop_loss_pct r
        \<noteq> (current_price order - stop_loss order) / current_price order * 100"
proof (intro impI)
  assume a: "analyze_order order capital leverage = Inr (Some r) \<and> direction order \<noteq> long_label"
  note r = conjunct1 [OF a]
  note eq = short_accepted [OF r conjunct2 [OF a]]
  have 1: "res_potential_profit r
        = (current_price order - take_profit order) * (res_position_value r / current_price order)"
    by (subst (1 2) eq) (simp only: result.select_convs)
  have 2: "res_potential_loss r
        = (stop_loss order - current_price order) * (res_position_value r / current_price order)"
    by (subst (1 2) eq) (simp only: result.select_convs)
  have 3: "res_take_profit_pct r
        = (current_price order - take_profit order) / current_price order * 100"
    by (subst eq) (simp only: result.select_convs)
  have 4: "res_stop_loss_pct r
        = (stop_loss order - current_price order) / current_price order * 100"
    by (subst eq) (simp only: result.select_convs)
  from accepted_conditions(2,3) [OF r] a
  have "current_price order \<noteq> 0" and "current_price order < stop_loss order"
    by (simp_all add: ordering_invariant_def)
  then have 5: "(stop_loss order - current_price order) / current_price order * 100
        \<noteq> (current_price order - stop_loss order) / current_price order * 100"
    by (simp add: field_simps)
  from 1 2 3 4 5 show "res_potential_profit r
        = (current_price order - take_profit order) * (res_position_value r / current_price order)
    \<and> res_potential_loss r
        = (stop_loss order - current_price order) * (res_position_value r / current_price order)
    \<and> res_take_profit_pct r
        = (current_price order - take_profit order) / current_price order * 100
    \<and> res_stop_loss_pct r
        = (stop_loss order - current_price order) / current_price order * 100
    \<and> res_stop_loss_pct r
        \<noteq> (current_price order - stop_loss order) / current_price order * 100"
    by simp
qed

theorem short_order_fields_witness:
  "(\<exists>r. analyze_order \<lparr>direction = short_label, win_rate = 1/2, current_price = 4420,
                     take_profit = 4000, stop_loss = 5000\<rparr> 100 20 = Inr (Some r)
      \<and> res_take_profit_pct r = 2100 / 221
      \<and> res_stop_loss_pct r = 2900 / 221
      \<and> (4420 - 5000) / 4420 * 100 = (- (2900 / 221) :: real))"
proof -
  let ?o = "\<lparr>direction = short_label, win_rate = 1/2, current_price = 4420,
              take_profit = 4000, stop_loss = 5000\<rparr> :: real order"
  obtain r where r: "analyze_order ?o 100 20 = Inr (Some r)"
    by (simp add: analyze_order_cases short_not_long)
  have d: "direction ?o \<noteq> long_label" by (simp add: short_not_long)
  from short_order_fields [rule_format, OF conjI [OF r d]] r
  show ?thesis by simp
qed

text \<open>
  C4, as stated, fails in its first quoted value: resolve(100, "10%") is the float
  100 * (1 + 10 / 100) = 110.00000000000001, the double 110 + 2^-46, and not 110.0.
\<close>

theorem rounded_percentage_counterexample:
  "\<forall>U. calc_price_from_input U (Fin 100) (Str (codes ''10%'')) = Inr (Fin (110 + 1 / 2 ^ 46))
       \<and> calc_price_from_input U (Fin 100) (Str (codes ''10%'')) \<noteq> Inr (Fin 110)"
proof
  fix U
  have "(110 + 1 / 2 ^ 46 :: real) \<noteq> 110" by simp
  then show "calc_price_from_input U (Fin 100) (Str (codes ''10%'')) = Inr (Fin (110 + 1 / 2 ^ 46))
       \<and> calc_price_from_input U (Fin 100) (Str (codes ''10%'')) \<noteq> Inr (Fin 110)"
    by (simp only: resolver_examples sum.inject double.inject simp_thms)
qed

text \<open>
  C4 (amended). For a string that \<open>float\<close> reads as x, followed by a percent sign, the
  resolver returns entry_price * (1 + x / 100) in the arithmetic of floats. For a string
  that does not end in a percent sign it returns \<open>float\<close> of the string, raising
  ValueError where \<open>float\<close> rejects it. It returns a float as it is, and an int rounded to
  the nearest double, raising OverflowError for an int too large for a double, as 2^1024.
  In particular resolve(100, "10%") = 110.00000000000001 (the double 110 + 2^-46),
  resolve(100, "-5%") = 95.0 and resolve(100, 95) = 95.0.
\<close>

theorem resolver_cases:
  "(float_str U p = Some x \<longrightarrow>
      calc_price_from_input U entry_price (Str (p @ percent))
        = Inr (dmul entry_price (dadd (Fin 1) (ddiv x (Fin 100)))))
   \<and> (\<not> endswith s percent \<longrightarrow>
        calc_price_from_input U entry_price (Str s)
          = (case float_str U s of None \<Rightarrow> Inl ValueError | Some v \<Rightarrow> Inr v))
   \<and> calc_price_from_input U entry_price (FloatNum v) = Inr v
   \<and> calc_price_from_input U entry_price (IntNum n)
        = (case round_double (of_int n) of Fin y \<Rightarrow> Inr (Fin y) | _ \<Rightarrow> Inl OverflowError)
   \<and> calc_price_from_input U entry_price (IntNum (2 ^ 1024)) = Inl OverflowError
   \<and> calc_price_from_input U (Fin 100) (Str (codes ''10%'')) = Inr (Fin (110 + 1 / 2 ^ 46))
   \<and> calc_price_from_input U (Fin 100) (Str (codes ''-5%'')) = Inr (Fin 95)
   \<and> calc_price_from_input U (Fin 100) (IntNum 95) = Inr (Fin 95)"
proof (intro conjI impI)
  assume "float_str U p = Some x"
  then show "calc_price_from_input U entry_price (Str (p @ percent))
        = Inr (dmul entry_price (dadd (Fin 1) (ddiv x (Fin 100))))"
    by (simp add: endswith_percent strip_numeric_prefix bind_err_def)
next
  assume "\<not> endswith s percent"
  then show "calc_price_from_input U entry_price (Str s)
          = (case float_str U s of None \<Rightarrow> Inl ValueError | Some v \<Rightarrow> Inr v)"
    by simp
next
  show "calc_price_from_input U entry_price (FloatNum v) = Inr v" by simp
  show "calc_price_from_input U entry_price (IntNum n)
        = (case round_double (of_int n) of Fin y \<Rightarrow> Inr (Fin y) | _ \<Rightarrow> Inl OverflowError)"
    by simp
  show "calc_price_from_input U entry_price (IntNum (2 ^ 1024)) = Inl OverflowError"
    by (simp only: calc_price_from_input.simps py_float.simps int_examples double.case)
  show "calc_price_from_input U (Fin 100) (Str (codes ''10%'')) = Inr (Fin (110 + 1 / 2 ^ 46))"
    by (rule resolver_examples)
  show "calc_price_from_input U (Fin 100) (Str (codes ''-5%'')) = Inr (Fin 95)"
    by (rule resolver_examples)
  show "calc_price_from_input U (Fin 100) (IntNum 95) = Inr (Fin 95)"
    by (simp only: calc_price_from_input.simps py_float.simps int_examples double.case)
qed

theorem resolver_cases_witness:
  "\<forall>U. float_str U (codes ''-5'') = Some (Fin (- 5))
       \<and> calc_price_from_input U (Fin 100) (Str (codes ''-5'' @ percent)) = Inr (Fin 95)
       \<and> \<not> endswith (codes ''-5'') percent
       \<and> calc_price_from_input U (Fin 4420) (Str (codes ''-5'')) = Inr (Fin (- 5))"
proof
  fix U
  have p: "float_str U (codes ''-5'') = Some (Fin (- 5))"
    by (simp add: float_str_codes float_ascii_examples)
  have e: "\<not> endswith (codes ''-5'') percent"
    by (simp only: percent_codes endswith_codes) (simp add: endswith_def)
  from resolver_cases [of U "codes ''-5''" "Fin (- 5)" "Fin 100", THEN conjunct1, THEN mp, OF p]
  have a: "calc_price_from_input U (Fin 100) (Str (codes ''-5'' @ percent)) = Inr (Fin 95)"
    by (simp only: resolver_steps)
  from resolver_cases [of U _ _ "Fin 4420" "codes ''-5''", THEN conjunct2, THEN conjunct1,
         THEN mp, OF e]
  have b: "calc_price_from_input U (Fin 4420) (Str (codes ''-5'')) = Inr (Fin (- 5))"
    by (simp only: p option.case)
  show "float_str U (codes ''-5'') = Some (Fin (- 5))
       \<and> calc_price_from_input U (Fin 100) (Str (codes ''-5'' @ percent)) = Inr (Fin 95)
       \<and> \<not> endswith (codes ''-5'') percent
       \<and> calc_price_from_input U (Fin 4420) (Str (codes ''-5'')) = Inr (Fin (- 5))"
    by (intro conjI p a e b)
qed

text \<open>
  C5. Whenever the potential loss the evaluator computes is zero (and the two divisions
  before it did not raise), the evaluator returns \<open>None\<close>; every result returned has a
  potential loss that is not zero, and its profit_loss_ratio is
  abs (potential_profit / potential_loss); with leverage and entry price not zero the
  evaluator never raises ZeroDivisionError.
\<close>

theorem zero_loss_guard:
  "(leverage \<noteq> 0 \<and> current_price order \<noteq> 0 \<and> potential_loss_of order capital leverage = 0
      \<longrightarrow> analyze_order order capital leverage = Inr None)
   \<and> (analyze_order order capital leverage = Inr (Some r)
      \<longrightarrow> res_potential_loss r = potential_loss_of order capital leverage
        \<and> res_potential_loss r \<noteq> 0
        \<and> res_profit_loss_ratio r = \<bar>res_potential_profit r / res_potential_loss r\<bar>)
   \<and> (leverage \<noteq> 0 \<and> current_price order \<noteq> 0
      \<longrightarrow> analyze_order order capital leverage \<noteq> Inl ZeroDivisionError)"
proof (intro conjI impI)
  assume "leverage \<noteq> 0 \<and> current_price order \<noteq> 0 \<and> potential_loss_of order capital leverage = 0"
  then show "analyze_order order capital leverage = Inr None"
    unfolding analyze_order_cases potential_loss_of_def by (auto split: if_splits)
next
  assume r: "analyze_order order capital leverage = Inr (Some r)"
  show "res_potential_loss r = potential_loss_of order capital leverage"
  proof (cases "direction order = long_label")
    case True
    show ?thesis
      by (subst long_accepted [OF r True]) (simp only: result.select_convs potential_loss_of_def True refl if_True)
  next
    case False
    show ?thesis
      by (subst short_accepted [OF r False]) (simp only: result.select_convs potential_loss_of_def False if_False)
  qed
  with accepted_conditions(4) [OF r] show "res_potential_loss r \<noteq> 0" by simp
  show "res_profit_loss_ratio r = \<bar>res_potential_profit r / res_potential_loss r\<bar>"
  proof (cases "direction order = long_label")
    case True
    show ?thesis
      by (subst (1 2 3) long_accepted [OF r True]) (simp only: result.select_convs)
  next
    case False
    show ?thesis
      by (subst (1 2 3) short_accepted [OF r False]) (simp only: result.select_convs)
  qed
next
  assume "leverage \<noteq> 0 \<and> current_price order \<noteq> 0"
  then show "analyze_order order capital leverage \<noteq> Inl ZeroDivisionError"
    unfolding analyze_order_cases by (simp split: if_splits)
qed

theorem zero_loss_guard_witness:
  "potential_loss_of \<lparr>direction = long_label, win_rate = 1/2, current_price = 100,
                       take_profit = 110, stop_loss = 95\<rparr> 0 2 = 0
   \<and> analyze_order \<lparr>direction = long_label, win_rate = 1/2, current_price = 100,
                     take_profit = 110, stop_loss = 95\<rparr> 0 2 = Inr None"
proof -
  let ?o = "\<lparr>direction = long_label, win_rate = 1/2, current_price = 100,
              take_profit = 110, stop_loss = 95\<rparr> :: real order"
  have h: "(2::real) \<noteq> 0 \<and> current_price ?o \<noteq> 0 \<and> potential_loss_of ?o 0 2 = 0"
    by (simp add: potential_loss_of_def)
  from zero_loss_guard [THEN conjunct1, rule_format, OF h] h show ?thesis by simp
qed

text \<open>
  C6, as stated, fails for a string with a percent sign at its start, or with more than
  one at its end: what stands before the final percent sign of "%10%" and of "10%%" is
  "%10" and "10%", neither of them numeric, yet the resolver strips every leading and
  trailing percent sign and returns 110.00000000000001 for the entry price 100.
\<close>

theorem stripped_percent_counterexample:
  "\<forall>U. endswith (codes ''%10%'') percent \<and> float_str U (codes ''%10'') = None
       \<and> calc_price_from_input U (Fin 100) (Str (codes ''%10%'')) = Inr (Fin (110 + 1 / 2 ^ 46))
       \<and> endswith (codes ''10%%'') percent \<and> float_str U (codes ''10%'') = None
       \<and> calc_price_from_input U (Fin 100) (Str (codes ''10%%'')) = Inr (Fin (110 + 1 / 2 ^ 46))"
proof -
  have "endswith (codes ''%10%'') percent" "endswith (codes ''10%%'') percent"
    by (simp_all only: percent_codes endswith_codes) (simp_all add: endswith_def)
  moreover have "float_str U (codes ''%10'') = None" "float_str U (codes ''10%'') = None" for U
    by (simp_all add: float_str_codes float_ascii_examples)
  ultimately show ?thesis by (simp only: resolver_examples simp_thms)
qed

text \<open>
  C6 (amended). For a string that ends in a percent sign and that \<open>float\<close> rejects once
  all its leading and trailing percent signs are removed, the resolver raises ValueError.
  The entry point, given a list in which such a string is the take-profit or stop-loss
  input of an order, raises ValueError or OverflowError and returns no result for any
  order; it raises ValueError when no price input of the list is an int too large for a
  float.
\<close>

theorem malformed_percentage_raises:
  "(endswith s percent \<and> float_str U (strip_chars s percent) = None \<longrightarrow>
      calc_price_from_input U p (Str s) = Inl ValueError)
   \<and> (endswith s percent \<and> float_str U (strip_chars s percent) = None
        \<and> (\<exists>oi \<in> set orders_input. has_spec oi s) \<longrightarrow>
      (analyze_trading_orders U display_and_plot capital leverage orders_input = Inl ValueError
       \<or> analyze_trading_orders U display_and_plot capital leverage orders_input
            = Inl OverflowError)
      \<and> (list_all ints_fit orders_input \<longrightarrow>
           analyze_trading_orders U display_and_plot capital leverage orders_input
             = Inl ValueError))"
proof (intro conjI impI)
  assume "endswith s percent \<and> float_str U (strip_chars s percent) = None"
  then show "calc_price_from_input U p (Str s) = Inl ValueError"
    by (simp add: bind_err_def)
next
  assume h: "endswith s percent \<and> float_str U (strip_chars s percent) = None
        \<and> (\<exists>oi \<in> set orders_input. has_spec oi s)"
  then have c: "calc_price_from_input U q (Str s) = Inl ValueError" for q
    by (simp add: bind_err_def)
  from h obtain oi where "oi \<in> set orders_input" "has_spec oi s" by blast
  from build_orders_fails [OF this c]
  obtain e where e: "build_orders U orders_input = Inl e" by blast
  note r = build_orders_raises [OF e, of display_and_plot capital leverage]
  from build_orders_error(1) [OF e] r
  show "analyze_trading_orders U display_and_plot capital leverage orders_input = Inl ValueError
       \<or> analyze_trading_orders U display_and_plot capital leverage orders_input
            = Inl OverflowError" by auto
  {
    assume "list_all ints_fit orders_input"
    from build_orders_error(2) [OF e this] r
    show "analyze_trading_orders U display_and_plot capital leverage orders_input
             = Inl ValueError" by simp
  }
qed

theorem malformed_percentage_raises_witness:
  "\<forall>U. endswith (codes ''abc%'') percent
       \<and> float_str U (strip_chars (codes ''abc%'') percent) = None
       \<and> calc_price_from_input U (Fin 4420) (Str (codes ''abc%'')) = Inl ValueError
       \<and> analyze_trading_orders U no_display (Fin 100) (Fin 20)
           [(long_label, Fin (1/2), Fin 4420, Str (codes ''10%''), Str (codes ''-5%'')),
            (short_label, Fin (1/2), Fin 4420, Str (codes ''abc%''), IntNum 5000)]
           = Inl ValueError"
proof
  fix U
  let ?inp = "[(long_label, Fin (1/2), Fin 4420, Str (codes ''10%''), Str (codes ''-5%'')),
            (short_label, Fin (1/2), Fin 4420, Str (codes ''abc%''), IntNum 5000)]
            :: order_input list"
  have s: "strip_chars ''abc%'' ''%'' = ''abc''" by (simp add: strip_chars_def)
  have e: "endswith (codes ''abc%'') percent"
    by (simp only: percent_codes endswith_codes) (simp add: endswith_def)
  have f: "float_str U (strip_chars (codes ''abc%'') percent) = None"
    by (simp only: percent_codes strip_codes s) (simp add: float_str_codes float_ascii_examples)
  have i: "round_double 5000 = Fin 5000" by (simp add: double_eval)
  have h: "endswith (codes ''abc%'') percent
      \<and> float_str U (strip_chars (codes ''abc%'') percent) = None
      \<and> (\<exists>oi \<in> set ?inp. has_spec oi (codes ''abc%''))"
    using e f by (simp add: has_spec_def)
  have m: "list_all ints_fit ?inp"
    by (simp add: ints_fit_def fits_float_def i)
  from malformed_percentage_raises [of "codes ''abc%''" U "Fin 4420", THEN conjunct1, THEN mp,
         OF conjI [OF e f]]
       malformed_percentage_raises [of "codes ''abc%''" U _ ?inp no_display "Fin 100" "Fin 20",
         THEN conjunct2, THEN mp, OF h, THEN conjunct2, THEN mp, OF m] e f
  show "endswith (codes ''abc%'') percent
       \<and> float_str U (strip_chars (codes ''abc%'') percent) = None
       \<and> calc_price_from_input U (Fin 4420) (Str (codes ''abc%'')) = Inl ValueError
       \<and> analyze_trading_orders U no_display (Fin 100) (Fin 20) ?inp = Inl ValueError"
    by simp
qed

text \<open>
  C7, as stated, fails in both halves. In a plain Python interpreter, where \<open>display\<close> is
  not defined, the list holding one valid long order (entry 100, take-profit 110,
  stop-loss 90, capital 100, leverage 2) raises NameError instead of returning the table.
  And with leverage zero the list holding one long order with stop-loss equal to the entry
  price, in which no order passes validation, raises ZeroDivisionError instead of
  returning \<open>None\<close>, even where \<open>display\<close> and the plot return.
\<close>

theorem valid_order_no_display_counterexample:
  "\<forall>U. (\<exists>r. analyze_order_ieee \<lparr>direction = long_label, win_rate = Fin (1/2),
              current_price = Fin 100, take_profit = Fin 110, stop_loss = Fin 90\<rparr>
            (Fin 100) (Fin 2) = Inr (Some r))
       \<and> analyze_trading_orders U no_display (Fin 100) (Fin 2)
           [(long_label, Fin (1/2), Fin 100, IntNum 110, IntNum 90)] = Inl NameError
       \<and> \<not> ordering_invariant_ieee \<lparr>direction = long_label, win_rate = Fin (1/2),
              current_price = Fin 100, take_profit = Fin 110, stop_loss = Fin 100\<rparr>
       \<and> analyze_trading_orders U (\<lambda>results. None) (Fin 100) (Fin 0)
           [(long_label, Fin (1/2), Fin 100, IntNum 110, IntNum 100)] = Inl ZeroDivisionError"
proof
  fix U
  have b: "build_orders U [(long_label, Fin (1/2), Fin 100, IntNum 110, IntNum 90)]
      = Inr [\<lparr>direction = long_label, win_rate = Fin (1/2), current_price = Fin 100,
               take_profit = Fin 110, stop_loss = Fin 90\<rparr>]"
    "build_orders U [(long_label, Fin (1/2), Fin 100, IntNum 110, IntNum 100)]
      = Inr [\<lparr>direction = long_label, win_rate = Fin (1/2), current_price = Fin 100,
               take_profit = Fin 110, stop_loss = Fin 100\<rparr>]"
    by (simp_all only: build_eval)
  have z: "analyze_order_ieee \<lparr>direction = long_label, win_rate = Fin (1/2),
              current_price = Fin 100, take_profit = Fin 110, stop_loss = Fin 100\<rparr>
            (Fin 100) (Fin 0) = Inl ZeroDivisionError"
    by (simp add: analyze_order_ieee_raises)
  show "(\<exists>r. analyze_order_ieee \<lparr>direction = long_label, win_rate = Fin (1/2),
              current_price = Fin 100, take_profit = Fin 110, stop_loss = Fin 90\<rparr>
            (Fin 100) (Fin 2) = Inr (Some r))
       \<and> analyze_trading_orders U no_display (Fin 100) (Fin 2)
           [(long_label, Fin (1/2), Fin 100, IntNum 110, IntNum 90)] = Inl NameError
       \<and> \<not> ordering_invariant_ieee \<lparr>direction = long_label, win_rate = Fin (1/2),
              current_price = Fin 100, take_profit = Fin 110, stop_loss = Fin 100\<rparr>
       \<and> analyze_trading_orders U (\<lambda>results. None) (Fin 100) (Fin 0)
           [(long_label, Fin (1/2), Fin 100, IntNum 110, IntNum 100)] = Inl ZeroDivisionError"
    by (simp only: analyze_trading_orders_def b)
      (simp add: bind_err_def example_orders z no_display_def ordering_invariant_ieee_def)
qed

text \<open>
  C7 (amended). For the empty list the entry point returns \<open>None\<close>. For a list whose
  price inputs all resolve, with leverage not zero and no entry price zero: when the
  evaluator returns \<open>None\<close> for every order the entry point returns \<open>None\<close>; when the
  evaluator accepts at least one order the entry point passes the results of the accepted
  orders, in the order of the input list, to \<open>display\<close> and the plot, returns them when
  both return and raises their exception otherwise, which is NameError in a plain Python
  interpreter, where \<open>display\<close> is not defined. When a price input does not resolve, the
  entry point raises the exception of the resolver. When all resolve and some order meets
  leverage zero or has entry price zero, the entry point raises ZeroDivisionError.
\<close>

theorem no_valid_orders_outcome:
  "analyze_trading_orders U display_and_plot capital leverage [] = Inr None
   \<and> (build_orders U orders_input = Inr orders \<and> leverage \<noteq> Fin 0
        \<and> (\<forall>order \<in> set orders. current_price order \<noteq> Fin 0) \<longrightarrow>
      ((\<forall>order \<in> set orders. analyze_order_ieee order capital leverage = Inr None)
         \<longrightarrow> analyze_trading_orders U display_and_plot capital leverage orders_input = Inr None)
      \<and> ((\<exists>order \<in> set orders. \<exists>r. analyze_order_ieee order capital leverage = Inr (Some r))
         \<longrightarrow> analyze_trading_orders U display_and_plot capital leverage orders_input
               = (case display_and_plot (valid_results orders capital leverage) of
                    Some e \<Rightarrow> Inl e
                  | None \<Rightarrow> Inr (Some (valid_results orders capital leverage)))
             \<and> analyze_trading_orders U no_display capital leverage orders_input
                 = Inl NameError))
   \<and> (build_orders U orders_input = Inl e \<longrightarrow>
        analyze_trading_orders U display_and_plot capital leverage orders_input = Inl e)
   \<and> (build_orders U orders_input = Inr orders
        \<and> (\<exists>order \<in> set orders. leverage = Fin 0 \<or> current_price order = Fin 0) \<longrightarrow>
        analyze_trading_orders U display_and_plot capital leverage orders_input
          = Inl ZeroDivisionError)"
proof (intro conjI impI)
  show "analyze_trading_orders U display_and_plot capital leverage [] = Inr None"
    by (simp add: analyze_trading_orders_def bind_err_def)
next
  assume h: "build_orders U orders_input = Inr orders \<and> leverage \<noteq> Fin 0
        \<and> (\<forall>order \<in> set orders. current_price order \<noteq> Fin 0)"
  then have all: "analyze_all orders capital leverage = Inr (valid_results orders capital leverage)"
    by (simp add: analyze_all_valid_results)
  {
    assume "\<forall>order \<in> set orders. analyze_order_ieee order capital leverage = Inr None"
    from valid_results_empty [OF this] h all
    show "analyze_trading_orders U display_and_plot capital leverage orders_input = Inr None"
      by (simp add: analyze_trading_orders_def bind_err_def)
  }
  {
    assume "\<exists>order \<in> set orders. \<exists>r. analyze_order_ieee order capital leverage = Inr (Some r)"
    then have ne: "valid_results orders capital leverage \<noteq> []"
      using valid_results_nonempty by blast
    with h all
    show "analyze_trading_orders U display_and_plot capital leverage orders_input
               = (case display_and_plot (valid_results orders capital leverage) of
                    Some e \<Rightarrow> Inl e
                  | None \<Rightarrow> Inr (Some (valid_results orders capital leverage)))"
      by (simp add: analyze_trading_orders_def bind_err_def)
    from ne h all
    show "analyze_trading_orders U no_display capital leverage orders_input = Inl NameError"
      by (simp add: analyze_trading_orders_def bind_err_def no_display_def)
  }
next
  assume "build_orders U orders_input = Inl e"
  then show "analyze_trading_orders U display_and_plot capital leverage orders_input = Inl e"
    by (rule build_orders_raises)
next
  assume h: "build_orders U orders_input = Inr orders
        \<and> (\<exists>order \<in> set orders. leverage = Fin 0 \<or> current_price order = Fin 0)"
  then obtain order where "order \<in> set orders"
    "leverage = Fin 0 \<or> current_price order = Fin 0" by blast
  from analyze_all_raises [OF this] h
  show "analyze_trading_orders U display_and_plot capital leverage orders_input
          = Inl ZeroDivisionError"
    by (simp add: analyze_trading_orders_def bind_err_def)
qed

theorem no_valid_orders_outcome_witness:
  "\<forall>U. analyze_trading_orders U no_display (Fin 100) (Fin 2)
           [(long_label, Fin (1/2), Fin 100, IntNum 110, IntNum 100),
            (short_label, Fin (1/2), Fin 100, Str (codes ''10%''), IntNum 120)]
           = Inr None
       \<and> analyze_trading_orders U (\<lambda>results. None) (Fin 100) (Fin 2)
           [(long_label, Fin (1/2), Fin 100, IntNum 110, IntNum 100),
            (short_label, Fin (1/2), Fin 100, IntNum 90, IntNum 120),
            (long_label, Fin (1/2), Fin 100, FloatNum (Fin 110), FloatNum (Fin 90))]
           = Inr (Some
              [\<lparr>res_direction = short_label, res_entry_price = Fin 100,
                 res_take_profit = Fin 90, res_stop_loss = Fin 120,
                 res_profit_loss_ratio = Fin (1/2),
                 res_potential_profit = Fin 20, res_potential_loss = Fin 40,
                 res_take_profit_pct = Fin 10, res_stop_loss_pct = Fin 20,
                 res_capital = Fin 100, res_position_value = Fin 200, res_leverage = Fin 2,
                 res_win_rate = Fin (1/2), res_expected_value = Fin (- 10)\<rparr>,
               \<lparr>res_direction = long_label, res_entry_price = Fin 100,
                 res_take_profit = Fin 110, res_stop_loss = Fin 90,
                 res_profit_loss_ratio = Fin 1,
                 res_potential_profit = Fin 20, res_potential_loss = Fin 20,
                 res_take_profit_pct = Fin 10, res_stop_loss_pct = Fin (- 10),
                 res_capital = Fin 100, res_position_value = Fin 200, res_leverage = Fin 2,
                 res_win_rate = Fin (1/2), res_expected_value = Fin 0\<rparr>])
       \<and> analyze_trading_orders U no_display (Fin 100) (Fin 2)
           [(long_label, Fin (1/2), Fin 100, IntNum 110, IntNum 100),
            (short_label, Fin (1/2), Fin 100, IntNum 90, IntNum 120),
            (long_label, Fin (1/2), Fin 100, FloatNum (Fin 110), FloatNum (Fin 90))]
           = Inl NameError
       \<and> analyze_trading_orders U no_display (Fin 100) (Fin 2)
           [(long_label, Fin (1/2), Fin 100, Str (codes ''abc%''), IntNum 100)]
           = Inl ValueError
       \<and> analyze_trading_orders U no_display (Fin 100) (Fin 2)
           [(long_label, Fin (1/2), Fin 0, IntNum 110, IntNum 100)]
           = Inl ZeroDivisionError"
proof
  fix U
  let ?inp = "[(long_label, Fin (1/2), Fin 100, IntNum 110, IntNum 100),
            (short_label, Fin (1/2), Fin 100, Str (codes ''10%''), IntNum 120)]
            :: order_input list"
  let ?a = "\<lparr>direction = long_label, win_rate = Fin (1/2), current_price = Fin 100,
              take_profit = Fin 110, stop_loss = Fin 100\<rparr>"
  let ?b = "\<lparr>direction = short_label, win_rate = Fin (1/2), current_price = Fin 100,
              take_profit = Fin (110 + 1 / 2 ^ 46), stop_loss = Fin 120\<rparr>"
  let ?inp2 = "[(long_label, Fin (1/2), Fin 100, IntNum 110, IntNum 100),
            (short_label, Fin (1/2), Fin 100, IntNum 90, IntNum 120),
            (long_label, Fin (1/2), Fin 100, FloatNum (Fin 110), FloatNum (Fin 90))]
            :: order_input list"
  let ?c = "\<lparr>direction = short_label, win_rate = Fin (1/2), current_price = Fin 100,
              take_profit = Fin 90, stop_loss = Fin 120\<rparr>"
  let ?d = "\<lparr>direction = long_label, win_rate = Fin (1/2), current_price = Fin 100,
              take_profit = Fin 110, stop_loss = Fin 90\<rparr>"
  let ?inp3 = "[(long_label, Fin (1/2), Fin 100, Str (codes ''abc%''), IntNum 100)]
            :: order_input list"
  let ?inp4 = "[(long_label, Fin (1/2), Fin 0, IntNum 110, IntNum 100)] :: order_input list"
  let ?z = "\<lparr>direction = long_label, win_rate = Fin (1/2), current_price = Fin 0,
              take_profit = Fin 110, stop_loss = Fin 100\<rparr>"
  let ?rs = "[\<lparr>res_direction = short_label, res_entry_price = Fin 100,
                 res_take_profit = Fin 90, res_stop_loss = Fin 120,
                 res_profit_loss_ratio = Fin (1/2),
                 res_potential_profit = Fin 20, res_potential_loss = Fin 40,
                 res_take_profit_pct = Fin 10, res_stop_loss_pct = Fin 20,
                 res_capital = Fin 100, res_position_value = Fin 200, res_leverage = Fin 2,
                 res_win_rate = Fin (1/2), res_expected_value = Fin (- 10)\<rparr>,
               \<lparr>res_direction = long_label, res_entry_price = Fin 100,
                 res_take_profit = Fin 110, res_stop_loss = Fin 90,
                 res_profit_loss_ratio = Fin 1,
                 res_potential_profit = Fin 20, res_potential_loss = Fin 20,
                 res_take_profit_pct = Fin 10, res_stop_loss_pct = Fin (- 10),
                 res_capital = Fin 100, res_position_value = Fin 200, res_leverage = Fin 2,
                 res_win_rate = Fin (1/2), res_expected_value = Fin 0\<rparr>]"
  have b1: "build_orders U ?inp = Inr [?a, ?b]"
    by (simp only: build_eval)
  have h: "build_orders U ?inp = Inr [?a, ?b] \<and> Fin 2 \<noteq> Fin 0
        \<and> (\<forall>order \<in> set [?a, ?b]. current_price order \<noteq> Fin 0)"
    using b1 by simp
  have nb: "analyze_order_ieee ?b (Fin 100) (Fin 2) = Inr None"
    unfolding analyze_order_ieee_cases by (simp add: short_label_def long_label_def)
  have n: "\<forall>order \<in> set [?a, ?b]. analyze_order_ieee order (Fin 100) (Fin 2) = Inr None"
    using nb by (simp add: example_orders)
  have b2: "build_orders U ?inp2 = Inr [?a, ?c, ?d]"
    by (simp only: build_eval)
  have h2: "build_orders U ?inp2 = Inr [?a, ?c, ?d] \<and> Fin 2 \<noteq> Fin 0
        \<and> (\<forall>order \<in> set [?a, ?c, ?d]. current_price order \<noteq> Fin 0)"
    using b2 by simp
  have v: "valid_results [?a, ?c, ?d] (Fin 100) (Fin 2) = ?rs"
    by (simp add: valid_results_def example_orders)
  have x: "\<exists>order \<in> set [?a, ?c, ?d]. \<exists>r.
             analyze_order_ieee order (Fin 100) (Fin 2) = Inr (Some r)"
    by (simp add: example_orders)
  have b3: "build_orders U ?inp3 = Inl ValueError"
    by (simp only: build_eval)
  have "build_orders U ?inp4 = Inr [?z]"
    by (simp only: build_eval)
  then have b4: "build_orders U ?inp4 = Inr [?z]
        \<and> (\<exists>order \<in> set [?z]. Fin 2 = Fin 0 \<or> current_price order = Fin 0)"
    by simp
  note t = no_valid_orders_outcome
  from t [of U no_display "Fin 100" "Fin 2" ?inp "[?a, ?b]", THEN conjunct2, THEN conjunct1,
        THEN mp, OF h, THEN conjunct1, THEN mp, OF n]
  have r1: "analyze_trading_orders U no_display (Fin 100) (Fin 2) ?inp = Inr None" .
  from t [of U "\<lambda>results. None" "Fin 100" "Fin 2" ?inp2 "[?a, ?c, ?d]", THEN conjunct2,
        THEN conjunct1, THEN mp, OF h2, THEN conjunct2, THEN mp, OF x]
  have r2: "analyze_trading_orders U (\<lambda>results. None) (Fin 100) (Fin 2) ?inp2 = Inr (Some ?rs)"
    and r3: "analyze_trading_orders U no_display (Fin 100) (Fin 2) ?inp2 = Inl NameError"
    by (simp_all only: v option.case)
  from t [of U no_display "Fin 100" "Fin 2" ?inp3 _ ValueError, THEN conjunct2, THEN conjunct2,
        THEN conjunct1, THEN mp, OF b3]
  have r4: "analyze_trading_orders U no_display (Fin 100) (Fin 2) ?inp3 = Inl ValueError" .
  from t [of U no_display "Fin 100" "Fin 2" ?inp4 "[?z]", THEN conjunct2, THEN conjunct2,
        THEN conjunct2, THEN mp, OF b4]
  have r5: "analyze_trading_orders U no_display (Fin 100) (Fin 2) ?inp4 = Inl ZeroDivisionError" .
  show "analyze_trading_orders U no_display (Fin 100) (Fin 2) ?inp = Inr None
       \<and> analyze_trading_orders U (\<lambda>results. None) (Fin 100) (Fin 2) ?inp2 = Inr (Some ?rs)
       \<and> analyze_trading_orders U no_display (Fin 100) (Fin 2) ?inp2 = Inl NameError
       \<and> analyze_trading_orders U no_display (Fin 100) (Fin 2) ?inp3 = Inl ValueError
       \<and> analyze_trading_orders U no_display (Fin 100) (Fin 2) ?inp4 = Inl ZeroDivisionError"
    by (intro conjI r1 r2 r3 r4 r5)
qed

text \<open>
  C8. An order whose direction is anything but the long label is evaluated as a short
  order: the outcome is the one of the same order labelled short, with the order's own
  direction in the result; it yields \<open>None\<close> under the short validation, and a result with
  the short formulas when take_profit < entry_price < stop_loss. No direction is rejected.
\<close>

theorem other_direction_is_short:
  "direction order \<noteq> long_label \<longrightarrow>
     analyze_order order capital leverage
       = map_sum id (map_option (\<lambda>r. r\<lparr>res_direction := direction order\<rparr>))
           (analyze_order (order\<lparr>direction := short_label\<rparr>) capital leverage)
     \<and> (leverage \<noteq> 0 \<and> current_price order \<noteq> 0
          \<and> (stop_loss order \<le> current_price order \<or> take_profit order \<ge> current_price order)
        \<longrightarrow> analyze_order order capital leverage = Inr None)
     \<and> (leverage \<noteq> 0 \<and> current_price order \<noteq> 0 \<and> capital \<noteq> 0
          \<and> take_profit order < current_price order \<and> current_price order < stop_loss order
        \<longrightarrow> (\<exists>r. analyze_order order capital leverage = Inr (Some r)
               \<and> res_direction r = direction order
               \<and> res_potential_profit r
                   = (current_price order - take_profit order)
                     * (capital * leverage / current_price order)
               \<and> res_potential_loss r
                   = (stop_loss order - current_price order)
                     * (capital * leverage / current_price order)))"
proof (intro impI conjI)
  assume d: "direction order \<noteq> long_label"
  show "analyze_order order capital leverage
       = map_sum id (map_option (\<lambda>r. r\<lparr>res_direction := direction order\<rparr>))
           (analyze_order (order\<lparr>direction := short_label\<rparr>) capital leverage)"
    unfolding analyze_order_cases using d short_not_long by simp
next
  assume "direction order \<noteq> long_label"
    and "leverage \<noteq> 0 \<and> current_price order \<noteq> 0
          \<and> (stop_loss order \<le> current_price order \<or> take_profit order \<ge> current_price order)"
  then show "analyze_order order capital leverage = Inr None"
    unfolding analyze_order_cases by auto
next
  assume "direction order \<noteq> long_label"
    and "leverage \<noteq> 0 \<and> current_price order \<noteq> 0 \<and> capital \<noteq> 0
          \<and> take_profit order < current_price order \<and> current_price order < stop_loss order"
  then show "\<exists>r. analyze_order order capital leverage = Inr (Some r)
               \<and> res_direction r = direction order
               \<and> res_potential_profit r
                   = (current_price order - take_profit order)
                     * (capital * leverage / current_price order)
               \<and> res_potential_loss r
                   = (stop_loss order - current_price order)
                     * (capital * leverage / current_price order)"
    unfolding analyze_order_cases by auto
qed

theorem other_direction_is_short_witness:
  "''buy'' \<noteq> long_label
   \<and> analyze_order \<lparr>direction = ''buy'', win_rate = 1/2, current_price = 4420,
                     take_profit = 5000, stop_loss = 4000\<rparr> 100 20 = Inr None
   \<and> (\<exists>r. analyze_order \<lparr>direction = ''buy'', win_rate = 1/2, current_price = 4420,
                     take_profit = 4000, stop_loss = 5000\<rparr> 100 20 = Inr (Some r)
         \<and> res_direction r = ''buy''
         \<and> res_potential_profit r = 42000 / 221
         \<and> res_potential_loss r = 58000 / 221)"
proof -
  let ?a = "\<lparr>direction = ''buy'', win_rate = 1/2, current_price = 4420,
              take_profit = 5000, stop_loss = 4000\<rparr> :: real order"
  let ?b = "\<lparr>direction = ''buy'', win_rate = 1/2, current_price = 4420,
              take_profit = 4000, stop_loss = 5000\<rparr> :: real order"
  have d: "''buy'' \<noteq> long_label" by (simp add: long_label_def)
  then have da: "direction ?a \<noteq> long_label" and db: "direction ?b \<noteq> long_label" by simp_all
  have ha: "(20::real) \<noteq> 0 \<and> current_price ?a \<noteq> 0
          \<and> (stop_loss ?a \<le> current_price ?a \<or> take_profit ?a \<ge> current_price ?a)" by simp
  have hb: "(20::real) \<noteq> 0 \<and> current_price ?b \<noteq> 0 \<and> (100::real) \<noteq> 0
          \<and> take_profit ?b < current_price ?b \<and> current_price ?b < stop_loss ?b" by simp
  note t = other_direction_is_short [rule_format]
  from t [OF da, THEN conjunct2, THEN conjunct1, rule_format, OF ha]
       t [OF db, THEN conjunct2, THEN conjunct2, rule_format, OF hb] d
  show ?thesis by simp
qed

text \<open>
  C9. With leverage zero the evaluator raises ZeroDivisionError for every order and every
  capital (from the division capital / leverage, whose quotient the result never uses); it
  does not return \<open>None\<close>.
\<close>

theorem zero_leverage_raises:
  "analyze_order order capital 0 = Inl ZeroDivisionError
   \<and> analyze_order order capital 0 \<noteq> Inr None"
  by (simp add: analyze_order_cases)

theorem zero_leverage_raises_witness:
  "analyze_order \<lparr>direction = long_label, win_rate = 1/2, current_price = 100,
                   take_profit = 110, stop_loss = 95\<rparr> 100 0 = Inl ZeroDivisionError"
  using zero_leverage_raises [of "\<lparr>direction = long_label, win_rate = 1/2, current_price = 100,
                   take_profit = 110, stop_loss = 95\<rparr>" 100] by simp

text \<open>
  C10, as stated, fails for an order with an infinite stop-loss: with capital zero and
  leverage one, the long order with entry 100 (greater than zero), take-profit 110 and
  stop-loss -inf has position size zero, but its potential loss is inf * 0 = nan, which is
  not equal to zero, and the evaluator returns a result.
\<close>

theorem zero_capital_infinite_stop_counterexample:
  "dlt (Fin 0) (Fin 100)
   \<and> (\<exists>r. analyze_order_ieee \<lparr>direction = long_label, win_rate = Fin (1/2),
         current_price = Fin 100, take_profit = Fin 110, stop_loss = NInf\<rparr>
       (Fin 0) (Fin 1) = Inr (Some r) \<and> res_potential_loss r = NaN)"
  by (simp add: analyze_order_ieee_cases dsub_def round_double_zero inf_of_sign_def)

text \<open>
  C10 (amended). With capital zero, a finite leverage that is not zero, an entry price
  greater than zero and a finite difference between entry price and stop-loss, the
  position size is zero, the potential loss is zero and the evaluator returns \<open>None\<close>,
  whatever the direction, the win rate and the take-profit of the order.
\<close>

theorem zero_capital_absent:
  "l \<noteq> 0 \<and> dlt (Fin 0) (current_price order) \<and> loss_distance order = Fin d \<longrightarrow>
     ddiv (dmul (Fin 0) (Fin l)) (current_price order) = Fin 0
     \<and> potential_loss_ieee order (Fin 0) (Fin l) = Fin 0
     \<and> analyze_order_ieee order (Fin 0) (Fin l) = Inr None"
proof (intro impI)
  assume h: "l \<noteq> 0 \<and> dlt (Fin 0) (current_price order) \<and> loss_distance order = Fin d"
  then have cp: "current_price order \<noteq> Fin 0" by (cases "current_price order") auto
  from h have ps: "ddiv (dmul (Fin 0) (Fin l)) (current_price order) = Fin 0"
    by (cases "current_price order") (simp_all add: round_double_zero)
  from h ps have pl: "potential_loss_ieee order (Fin 0) (Fin l) = Fin 0"
    by (simp add: potential_loss_ieee_def round_double_zero)
  from h have "Fin l \<noteq> Fin 0" by simp
  with cp pl have "analyze_order_ieee order (Fin 0) (Fin l) = Inr None"
    unfolding analyze_order_ieee_cases potential_loss_ieee_def loss_distance_def
    by (simp split: if_splits)
  with ps pl show "ddiv (dmul (Fin 0) (Fin l)) (current_price order) = Fin 0
     \<and> potential_loss_ieee order (Fin 0) (Fin l) = Fin 0
     \<and> analyze_order_ieee order (Fin 0) (Fin l) = Inr None" by simp
qed

theorem zero_capital_absent_witness:
  "loss_distance \<lparr>direction = short_label, win_rate = Fin (1/2), current_price = Fin 4420,
                    take_profit = Fin 4000, stop_loss = Fin 5000\<rparr> = Fin 580
   \<and> analyze_order_ieee \<lparr>direction = short_label, win_rate = Fin (1/2),
         current_price = Fin 4420, take_profit = Fin 4000, stop_loss = Fin 5000\<rparr>
       (Fin 0) (Fin 20) = Inr None"
proof -
  let ?o = "\<lparr>direction = short_label, win_rate = Fin (1/2), current_price = Fin 4420,
              take_profit = Fin 4000, stop_loss = Fin 5000\<rparr>"
  have d: "loss_distance ?o = Fin 580"
    by (simp add: loss_distance_def short_label_def long_label_def dsub_def round_double_def
        binary_exponent_def bit_length.simps pow2_def round_half_even_def Let_def)
  have h: "(20::real) \<noteq> 0 \<and> dlt (Fin 0) (current_price ?o) \<and> loss_distance ?o = Fin 580"
    using d by simp
  from zero_capital_absent [of 20 ?o 580, THEN mp, OF h] d show ?thesis by simp
qed

end
